theory Spec2Isabelle
  imports Main
begin

section \<open>Python string operations used by the extractor and the comparator\<close>

text \<open>
  A Python \<open>str\<close> is modelled as a \<open>string\<close> whose characters are the code points below 256.
  On this range \<open>str.isspace\<close> holds for the code points 9 to 13, 28 to 32, 133 and 160;
  \<open>str.splitlines\<close> breaks a line at the code points 10 to 13, 28 to 30 and 133 (and takes
  a carriage return followed by a line feed as one break); \<open>str.lower\<close> adds 32 to the
  code points 65 to 90, 192 to 214 and 216 to 222.
\<close>

definition py_isspace :: "char \<Rightarrow> bool" where
  "py_isspace c =
     (c \<in> set [CHR 0x09, CHR 0x0A, CHR 0x0B, CHR 0x0C, CHR 0x0D, CHR 0x1C, CHR 0x1D,
               CHR 0x1E, CHR 0x1F, CHR 0x20, CHR 0x85, CHR 0xA0])"

definition py_linebreak :: "char \<Rightarrow> bool" where
  "py_linebreak c =
     (c \<in> set [CHR 0x0A, CHR 0x0B, CHR 0x0C, CHR 0x0D, CHR 0x1C, CHR 0x1D, CHR 0x1E,
               CHR 0x85])"

definition lower_char :: "char \<Rightarrow> char" where
  "lower_char c =
     (let n = (of_char c :: nat)
      in if (65 \<le> n \<and> n \<le> 90) \<or> (192 \<le> n \<and> n \<le> 214) \<or> (216 \<le> n \<and> n \<le> 222)
         then char_of (n + 32) else c)"

definition lower :: "string \<Rightarrow> string" where
  "lower s = map lower_char s"

definition strip :: "string \<Rightarrow> string" where
  "strip s = rev (dropWhile py_isspace (rev (dropWhile py_isspace s)))"

text \<open>
  \<open>splitlines_from cur t\<close> reads the rest \<open>t\<close> of the text while \<open>cur\<close> is the part of the
  current line already read. A line is closed at every line break and at the end of the
  text; no empty line is added after a break that ends the text.
\<close>

fun splitlines_from :: "string \<Rightarrow> string \<Rightarrow> string list" where
  "splitlines_from cur [] = [cur]"
| "splitlines_from cur [c] = (if py_linebreak c then [cur] else [cur @ [c]])"
| "splitlines_from cur (c # d # ds) =
     (if c = CHR 0x0D \<and> d = CHR 0x0A
        then cur # (if ds = [] then [] else splitlines_from [] ds)
      else if py_linebreak c then cur # splitlines_from [] (d # ds)
      else splitlines_from (cur @ [c]) (d # ds))"

definition splitlines :: "string \<Rightarrow> string list" where
  "splitlines t = (if t = [] then [] else splitlines_from [] t)"

section \<open>Field extraction (\<open>app/services/utils/extractor.py\<close>)\<close>

text \<open>
  The exceptions that leave \<open>start_verification\<close>: an \<open>HTTPException\<close> with its status code
  and detail, the exception of a failed \<open>db.commit()\<close>, and the exception of \<open>fitz.open\<close> on
  a file that is no document.
\<close>

datatype exn = HTTPException nat string | CommitFailed | FileDataError

text \<open>
  A file is modelled by what \<open>fitz\<close> reads from it: the text of its first page, or \<open>None\<close>
  when the file cannot be opened as a document.
\<close>

type_synonym document = "string option"

type_synonym student_info = "string option \<times> string option \<times> string option \<times> string option"

definition extract_text_from_first_page :: "document \<Rightarrow> exn + string" where
  "extract_text_from_first_page pdf =
     (case pdf of None \<Rightarrow> Inl FileDataError | Some text \<Rightarrow> Inr text)"

text \<open>
  The result is the tuple (course name, student name, total marks, roll number), or four
  times \<open>None\<close>. The assignment marks (line 8) and the exam marks (line 9) are read and
  dropped by the source, and so are absent from the result.
\<close>

definition extract_student_info_from_pdf :: "document \<Rightarrow> exn + student_info" where
  "extract_student_info_from_pdf pdf =
     (case extract_text_from_first_page pdf of
        Inl ex \<Rightarrow> Inl ex
      | Inr text \<Rightarrow>
          (let lines = splitlines text
           in if length lines \<noteq> 12 then Inr (None, None, None, None)
              else Inr (Some (strip (lines ! 5)), Some (strip (lines ! 6)),
                        Some (strip (lines ! 9)), Some (strip (lines ! 11)))))"

section \<open>The comparator (\<open>Verifier.verify_file\<close>)\<close>

type_synonym verdict = "bool \<times> string \<times> string option \<times> string option"

text \<open>The checks of \<open>verify_file\<close> on the two extracted tuples (lines 123 to 168).\<close>

definition verify_fields :: "student_info \<Rightarrow> student_info \<Rightarrow> string \<Rightarrow> string \<Rightarrow> verdict" where
  "verify_fields uploaded valid subject_name student_name =
     (case uploaded of (uploaded_course_name, uploaded_student_name, uploaded_total_marks,
                        uploaded_roll_number) \<Rightarrow>
      case valid of (valid_course_name, valid_student_name, valid_total_marks,
                     valid_roll_number) \<Rightarrow>
        if uploaded_course_name = None \<or> uploaded_student_name = None
           \<or> uploaded_total_marks = None \<or> uploaded_roll_number = None
          then (False, ''Invalid PDF uploaded. Data missing.'', None, None)
        else if valid_course_name = None \<or> valid_student_name = None
           \<or> valid_total_marks = None \<or> valid_roll_number = None
          then (False, ''Invalid details in the verification file'', None, None)
        else if strip (lower (the uploaded_course_name)) \<noteq> strip (lower (the valid_course_name))
           \<or> strip (lower (the uploaded_course_name)) \<noteq> strip (lower subject_name)
          then (False, ''Course name mismatch'', None, None)
        else if strip (lower (the uploaded_student_name)) \<noteq> strip (lower (the valid_student_name))
           \<or> strip (lower (the uploaded_student_name)) \<noteq> strip (lower student_name)
          then (False, ''Student name mismatch'', None, None)
        else if uploaded_total_marks \<noteq> valid_total_marks
          then (False, ''Total marks mismatch'', None, None)
        else if uploaded_roll_number \<noteq> valid_roll_number
          then (False, ''Roll number mismatch'', None, None)
        else (True, ''Verification successful'', valid_roll_number, valid_total_marks))"

text \<open>
  \<open>verify_file\<close> reads the uploaded file first and the verification file second; an
  unreadable file raises before any check.
\<close>

definition verify_file :: "document \<Rightarrow> document \<Rightarrow> string \<Rightarrow> string \<Rightarrow> exn + verdict" where
  "verify_file uploaded_file verification_file subject_name student_name =
     (case extract_student_info_from_pdf uploaded_file of
        Inl ex \<Rightarrow> Inl ex
      | Inr uploaded \<Rightarrow>
          (case extract_student_info_from_pdf verification_file of
             Inl ex \<Rightarrow> Inl ex
           | Inr valid \<Rightarrow> Inr (verify_fields uploaded valid subject_name student_name)))"

section \<open>The database, the session and the environment\<close>

text \<open>
  Modelled from the spec: the enumeration \<open>RequestStatus\<close> of \<open>app.models\<close>, a module that is
  not among the sources. The source names \<open>processing\<close>, \<open>completed\<close>, \<open>rejected\<close> and
  \<open>error\<close>; \<open>pending\<close> is the status before the first upload.
\<close>

datatype RequestStatus = pending | processing | completed | rejected | error

text \<open>
  Modelled from the spec: the rows \<open>Request\<close> and \<open>Certificate\<close> of \<open>app.models\<close>, with the
  attributes that the source reads and writes. A request carries the names that
  \<open>db_request.subject.name\<close> and \<open>db_request.student.name\<close> read; its key \<open>id\<close> is the key
  of the table below. A \<open>due_date\<close> is a naive datetime taken as UTC, counted in
  microseconds. The time stamps of a certificate are left out.
\<close>

record request =
  req_student_id :: string
  req_subject_name :: string
  req_student_name :: string
  due_date :: "int option"
  status :: RequestStatus

record certificate =
  cert_request_id :: string
  cert_student_id :: string
  file_url :: string
  verification_file_url :: "string option"
  verified :: bool
  remark :: "string option"

text \<open>
  Requests are keyed by their primary key; certificates are kept as a list, so that a
  duplicate record for one request can be told from a single one.
\<close>

record db =
  requests :: "string \<rightharpoonup> request"
  certificates :: "certificate list"

text \<open>
  \<open>store\<close> is what has been committed; \<open>session\<close> is the session's view, the store with the
  changes not yet committed. \<open>commit_count\<close> counts the calls of \<open>db.commit()\<close>, and \<open>fetched\<close>
  lists the links handed to the downloader.
\<close>

record world =
  store :: db
  session :: db
  commit_count :: nat
  fetched :: "string list"

text \<open>
  What a call reads from outside: the clock, whether the \<open>n\<close>-th commit succeeds, the
  result of \<open>extract_link(uploaded_file_path, 0)\<close>, the result of
  \<open>download_verification_pdf\<close> for a link (success, url of the document, output), the
  uploaded file and the file that the downloader wrote. The modules \<open>qr_extraction\<close> and
  \<open>downloader\<close> are not among the sources, so the results of their functions are
  parameters; they return and do not raise.
\<close>

record env =
  now :: int
  commit_succeeds :: "nat \<Rightarrow> bool"
  extract_link :: "string option"
  download_verification_pdf :: "string \<Rightarrow> bool \<times> string \<times> string"
  uploaded_file :: document
  verification_file :: document

record verifier =
  uploaded_file_path :: string
  request_id :: string
  student_id :: string

type_synonym outcome = "(exn + unit) \<times> world"

definition db_commit :: "env \<Rightarrow> world \<Rightarrow> outcome" where
  "db_commit e w =
     (if commit_succeeds e (commit_count w)
      then (Inr (), w\<lparr>store := session w, commit_count := Suc (commit_count w)\<rparr>)
      else (Inl CommitFailed, w\<lparr>commit_count := Suc (commit_count w)\<rparr>))"

definition db_rollback :: "world \<Rightarrow> world" where
  "db_rollback w = w\<lparr>session := store w\<rparr>"

definition query_request :: "verifier \<Rightarrow> db \<Rightarrow> request option" where
  "query_request v d =
     (case requests d (request_id v) of
        None \<Rightarrow> None
      | Some r \<Rightarrow> if req_student_id r = student_id v then Some r else None)"

definition query_certificate :: "verifier \<Rightarrow> db \<Rightarrow> certificate option" where
  "query_certificate v d = find (\<lambda>c. cert_request_id c = request_id v) (certificates d)"

text \<open>
  An assignment to an attribute of \<open>db_request\<close> or \<open>db_certificate\<close> changes the row of
  that object in the session: the request with the verifier's id, and the first
  certificate of that request. An object that is in no session (a new certificate after a
  rollback) has no row, and the assignment changes nothing in the database.
\<close>

fun update_first :: "('a \<Rightarrow> bool) \<Rightarrow> ('a \<Rightarrow> 'a) \<Rightarrow> 'a list \<Rightarrow> 'a list" where
  "update_first P f [] = []"
| "update_first P f (x # xs) = (if P x then f x # xs else x # update_first P f xs)"

definition set_request :: "verifier \<Rightarrow> (request \<Rightarrow> request) \<Rightarrow> db \<Rightarrow> db" where
  "set_request v f d =
     (case requests d (request_id v) of
        None \<Rightarrow> d
      | Some r \<Rightarrow> d\<lparr>requests := (requests d)(request_id v \<mapsto> f r)\<rparr>)"

definition set_certificate :: "verifier \<Rightarrow> (certificate \<Rightarrow> certificate) \<Rightarrow> db \<Rightarrow> db" where
  "set_certificate v f d =
     d\<lparr>certificates := update_first (\<lambda>c. cert_request_id c = request_id v) f (certificates d)\<rparr>"

section \<open>The orchestrator (\<open>Verifier\<close>)\<close>

text \<open>
  The three assignments that every final step makes: the status of the request, and the
  verified flag and the remark of the certificate.
\<close>

definition set_outcome :: "verifier \<Rightarrow> RequestStatus \<Rightarrow> bool \<Rightarrow> string \<Rightarrow> db \<Rightarrow> db" where
  "set_outcome v st flag remark_text d =
     set_certificate v (\<lambda>c. c\<lparr>verified := flag, remark := Some remark_text\<rparr>)
       (set_request v (\<lambda>r. r\<lparr>status := st\<rparr>) d)"

definition update_status_to_rejected :: "verifier \<Rightarrow> string \<Rightarrow> env \<Rightarrow> world \<Rightarrow> outcome" where
  "update_status_to_rejected v remark_text e w =
     (case db_commit e (w\<lparr>session := set_outcome v rejected False remark_text (session w)\<rparr>) of
        (Inl ex, w') \<Rightarrow> (Inl ex, w')
      | (Inr u, w') \<Rightarrow> (Inl (HTTPException 400 remark_text), w'))"

definition update_status_to_error :: "verifier \<Rightarrow> string \<Rightarrow> env \<Rightarrow> world \<Rightarrow> outcome" where
  "update_status_to_error v remark_text e w =
     db_commit e (w\<lparr>session := set_outcome v error False remark_text (session w)\<rparr>)"

definition past_due :: "env \<Rightarrow> request \<Rightarrow> bool" where
  "past_due e r = (case due_date r of None \<Rightarrow> False | Some d \<Rightarrow> now e > d)"

text \<open>
  Lines 44 to 59 of \<open>start_verification\<close>, on the session: the status becomes
  \<open>processing\<close>, and a certificate is created when the query for the request's certificate
  finds none. A certificate that is found is left as it is.
\<close>

definition stage_upload :: "verifier \<Rightarrow> db \<Rightarrow> db" where
  "stage_upload v d =
     (let s1 = set_request v (\<lambda>r. r\<lparr>status := processing\<rparr>) d
      in case query_certificate v s1 of
           None \<Rightarrow>
             s1\<lparr>certificates := certificates s1 @
                [\<lparr>cert_request_id = request_id v, cert_student_id = student_id v,
                  file_url = uploaded_file_path v, verification_file_url = None,
                  verified = False, remark = None\<rparr>]\<rparr>
         | Some db_certificate \<Rightarrow> s1)"

text \<open>
  Lines 44 to 68: the staged changes are committed. When the commit fails the session is
  rolled back, \<open>update_status_to_error\<close> runs, and the exception of the commit is raised
  again (unless the commit of \<open>update_status_to_error\<close> raises first).
\<close>

definition persist_upload :: "verifier \<Rightarrow> env \<Rightarrow> world \<Rightarrow> outcome" where
  "persist_upload v e w =
     (case db_commit e (w\<lparr>session := stage_upload v (session w)\<rparr>) of
        (Inr u, w1) \<Rightarrow> (Inr (), w1)
      | (Inl ex, w1) \<Rightarrow>
          (case update_status_to_error v ''An internal server error occurred'' e
                  (db_rollback w1) of
             (Inl ex2, w2) \<Rightarrow> (Inl ex2, w2)
           | (Inr u, w2) \<Rightarrow> (Inl ex, w2)))"

text \<open>
  Lines 70 to 104: the link, the download, the comparison and the final status.
  \<open>not verification_link\<close> holds for \<open>None\<close> and for the empty string.
\<close>

definition verify_upload :: "verifier \<Rightarrow> env \<Rightarrow> request \<Rightarrow> world \<Rightarrow> outcome" where
  "verify_upload v e db_request w =
     (case (case extract_link e of None \<Rightarrow> None | Some l \<Rightarrow> if l = [] then None else Some l) of
        None \<Rightarrow> update_status_to_rejected v ''Verification link / QR not found'' e w
      | Some verification_link \<Rightarrow>
          (let w1 = w\<lparr>fetched := fetched w @ [verification_link]\<rparr>
           in case download_verification_pdf e verification_link of
             (success, pdf_url, output) \<Rightarrow>
               if \<not> success
               then update_status_to_error v ''Could not download the verification pdf'' e w1
               else
                 (case db_commit e
                         (w1\<lparr>session := set_certificate v
                               (\<lambda>c. c\<lparr>verification_file_url := Some pdf_url\<rparr>) (session w1)\<rparr>) of
                    (Inl ex, w2) \<Rightarrow> (Inl ex, w2)
                  | (Inr u, w2) \<Rightarrow>
                      (case verify_file (uploaded_file e) (verification_file e)
                              (req_subject_name db_request) (req_student_name db_request) of
                         Inl ex \<Rightarrow> (Inl ex, w2)
                       | Inr (ok, reason, verified_roll_no, verified_total_marks) \<Rightarrow>
                           if \<not> ok then update_status_to_rejected v reason e w2
                           else
                             db_commit e
                               (w2\<lparr>session := set_outcome v completed True
                                     ''Verification successful'' (session w2)\<rparr>)))))"

definition start_verification :: "verifier \<Rightarrow> env \<Rightarrow> world \<Rightarrow> outcome" where
  "start_verification v e w =
     (case query_request v (session w) of
        None \<Rightarrow>
          (Inl (HTTPException 404
                  ''Request not found or does not belong to the current student''), w)
      | Some db_request \<Rightarrow>
          if past_due e db_request
          then (Inl (HTTPException 403 ''Request is past the due date''), w)
          else (case persist_upload v e w of
                  (Inl ex, w1) \<Rightarrow> (Inl ex, w1)
                | (Inr u, w1) \<Rightarrow> verify_upload v e db_request w1))"

section \<open>The upload route (\<open>app/router/student/routes.py\<close>)\<close>

text \<open>
  The only caller of the orchestrator. It looks the request up for the current student,
  turns away a request that is completed or processing, stores the uploaded file under a
  path made from the id of the request, and runs \<open>start_verification\<close> on that path. The
  checks on the upload and the writing of the file belong to modules that are not among
  the sources; the file written is the \<open>uploaded_file\<close> of the environment.
\<close>

definition certificate_path :: "string \<Rightarrow> string" where
  "certificate_path rid = ''./certificates/'' @ rid @ ''.pdf''"

definition route_verifier :: "string \<Rightarrow> string \<Rightarrow> verifier" where
  "route_verifier rid user_id =
     \<lparr>uploaded_file_path = certificate_path rid, request_id = rid, student_id = user_id\<rparr>"

definition upload_certificate :: "string \<Rightarrow> string \<Rightarrow> env \<Rightarrow> world \<Rightarrow> (exn + string) \<times> world" where
  "upload_certificate rid user_id e w =
     (case (case requests (session w) rid of
              None \<Rightarrow> None
            | Some r \<Rightarrow> if req_student_id r = user_id then Some r else None) of
        None \<Rightarrow>
          (Inl (HTTPException 404
                  ''Request not found or does not belong to the current student''), w)
      | Some db_request \<Rightarrow>
          if status db_request = completed
          then (Inl (HTTPException 400 ''Request already completed''), w)
          else if status db_request = processing
          then (Inl (HTTPException 400 ''Request already in processing''), w)
          else (case start_verification (route_verifier rid user_id) e w of
                  (Inl ex, w') \<Rightarrow> (Inl ex, w')
                | (Inr u, w') \<Rightarrow> (Inr ''Certificate uploaded successfully'', w')))"

section \<open>The comparator as the specification words it\<close>

text \<open>
  The specification gives the comparator as a list of checks in a strict order, each with
  the reason it reports; the outcome is the reason of the first check that fails. A check
  is written here as the pair of its failure condition and its reason.
\<close>

definition comparator_checks ::
  "student_info \<Rightarrow> student_info \<Rightarrow> string \<Rightarrow> string \<Rightarrow> (bool \<times> string) list" where
  "comparator_checks uploaded valid subject_name student_name =
     (case uploaded of (uc, us, ut, ur) \<Rightarrow>
      case valid of (vc, vs, vt, vr) \<Rightarrow>
        [(uc = None \<or> us = None \<or> ut = None \<or> ur = None,
          ''Invalid PDF uploaded. Data missing.''),
         (vc = None \<or> vs = None \<or> vt = None \<or> vr = None,
          ''Invalid details in the verification file''),
         (map_option (strip \<circ> lower) uc \<noteq> map_option (strip \<circ> lower) vc
            \<or> map_option (strip \<circ> lower) uc \<noteq> Some (strip (lower subject_name)),
          ''Course name mismatch''),
         (map_option (strip \<circ> lower) us \<noteq> map_option (strip \<circ> lower) vs
            \<or> map_option (strip \<circ> lower) us \<noteq> Some (strip (lower student_name)),
          ''Student name mismatch''),
         (ut \<noteq> vt, ''Total marks mismatch''),
         (ur \<noteq> vr, ''Roll number mismatch'')])"

definition first_failure :: "(bool \<times> string) list \<Rightarrow> string option" where
  "first_failure checks = map_option snd (find fst checks)"

definition missing :: "student_info \<Rightarrow> bool" where
  "missing f = (case f of (a, b, c, d) \<Rightarrow> a = None \<or> b = None \<or> c = None \<or> d = None)"

section \<open>Properties of the stored state\<close>

text \<open>
  The invariant of the certificate records: a record is verified only when the request
  it belongs to is stored with the status \<open>completed\<close>.
\<close>

definition cert_invariant :: "db \<Rightarrow> bool" where
  "cert_invariant d =
     list_all (\<lambda>c. verified c \<longrightarrow>
                 map_option status (requests d (cert_request_id c)) = Some completed)
              (certificates d)"

definition stored_status :: "verifier \<Rightarrow> world \<Rightarrow> RequestStatus option" where
  "stored_status v w = map_option status (requests (store w) (request_id v))"

definition stored_certificate :: "verifier \<Rightarrow> world \<Rightarrow> certificate option" where
  "stored_certificate v w = query_certificate v (store w)"

definition certificates_of :: "verifier \<Rightarrow> db \<Rightarrow> certificate list" where
  "certificates_of v d = filter (\<lambda>c. cert_request_id c = request_id v) (certificates d)"

definition unverified :: "verifier \<Rightarrow> db \<Rightarrow> bool" where
  "unverified v d = list_all (\<lambda>c. \<not> verified c) (certificates_of v d)"

text \<open>
  Two properties of the certificates that the program creates: each is stored under the
  path that the route makes from the id of its request, and no request has two.
\<close>

definition route_paths :: "db \<Rightarrow> bool" where
  "route_paths d =
     list_all (\<lambda>c. file_url c = certificate_path (cert_request_id c)) (certificates d)"

definition single_records :: "db \<Rightarrow> bool" where
  "single_records d = distinct (map cert_request_id (certificates d))"

section \<open>Sample data\<close>

text \<open>
  A first page in the layout of twelve lines; its sixth line carries blanks around the
  course name.
\<close>

definition sample_text :: string where
  "sample_text = ''NPTEL Online Certification\<newline>Elite\<newline>This certificate is awarded to\<newline>for successfully completing the course\<newline>with a consolidated score of\<newline>  Algorithms \<newline>Jane Doe\<newline>22/25\<newline>66/75\<newline>88\<newline>Jan-Apr 2024\<newline>R101''"

definition sample_text_r102 :: string where
  "sample_text_r102 = ''NPTEL Online Certification\<newline>Elite\<newline>This certificate is awarded to\<newline>for successfully completing the course\<newline>with a consolidated score of\<newline>Algorithms\<newline>Jane Doe\<newline>22/25\<newline>66/75\<newline>88\<newline>Jan-Apr 2024\<newline>R102''"

definition sample_request :: request where
  "sample_request =
     \<lparr>req_student_id = ''s1'', req_subject_name = ''Algorithms'',
      req_student_name = ''Jane Doe'', due_date = Some 1000, status = pending\<rparr>"

definition sample_certificate :: certificate where
  "sample_certificate =
     \<lparr>cert_request_id = ''r1'', cert_student_id = ''s1'', file_url = ''old.pdf'',
      verification_file_url = Some ''https://nptel.example/old'', verified = True,
      remark = Some ''Verification successful''\<rparr>"

definition sample_db :: db where
  "sample_db = \<lparr>requests = [''r1'' \<mapsto> sample_request], certificates = []\<rparr>"

text \<open>A request that is completed already, with its verified certificate.\<close>

definition completed_db :: db where
  "completed_db =
     \<lparr>requests = [''r1'' \<mapsto> sample_request\<lparr>status := completed\<rparr>],
      certificates = [sample_certificate]\<rparr>"

definition fresh_world :: "db \<Rightarrow> world" where
  "fresh_world d = \<lparr>store = d, session = d, commit_count = 0, fetched = []\<rparr>"

definition sample_env :: env where
  "sample_env =
     \<lparr>now = 500, commit_succeeds = (\<lambda>n. True), extract_link = Some ''https://nptel.example/v'',
      download_verification_pdf = (\<lambda>link. (True, ''https://nptel.example/v.pdf'', [])),
      uploaded_file = Some sample_text, verification_file = Some sample_text\<rparr>"

definition env_no_link :: env where
  "env_no_link = sample_env\<lparr>extract_link := None\<rparr>"

definition env_download_fails :: env where
  "env_download_fails =
     sample_env\<lparr>download_verification_pdf := (\<lambda>link. (False, [], ''timed out''))\<rparr>"

definition env_roll_mismatch :: env where
  "env_roll_mismatch = sample_env\<lparr>verification_file := Some sample_text_r102\<rparr>"

text \<open>The database is down: no commit succeeds.\<close>

definition env_no_commit :: env where
  "env_no_commit = sample_env\<lparr>commit_succeeds := (\<lambda>n. False)\<rparr>"

text \<open>Only the first commit of the call fails; only the second commit of the call fails.\<close>

definition env_first_commit_fails :: env where
  "env_first_commit_fails = sample_env\<lparr>commit_succeeds := (\<lambda>n. n \<noteq> 0)\<rparr>"

definition env_second_commit_fails :: env where
  "env_second_commit_fails = sample_env\<lparr>commit_succeeds := (\<lambda>n. n \<noteq> 1)\<rparr>"

text \<open>A request rejected before, with the certificate of that upload.\<close>

definition rejected_db :: db where
  "rejected_db =
     \<lparr>requests = [''r1'' \<mapsto> sample_request\<lparr>status := rejected\<rparr>],
      certificates =
        [\<lparr>cert_request_id = ''r1'', cert_student_id = ''s1'', file_url = ''old.pdf'',
          verification_file_url = None, verified = False,
          remark = Some ''Verification link / QR not found''\<rparr>]\<rparr>"

text \<open>The same request, with the certificate that the route's first upload left.\<close>

definition reupload_db :: db where
  "reupload_db =
     \<lparr>requests = [''r1'' \<mapsto> sample_request\<lparr>status := rejected\<rparr>],
      certificates =
        [\<lparr>cert_request_id = ''r1'', cert_student_id = ''s1'',
          file_url = ''./certificates/r1.pdf'', verification_file_url = None,
          verified = False, remark = Some ''Verification link / QR not found''\<rparr>]\<rparr>"

definition sample_verifier :: verifier where
  "sample_verifier =
     \<lparr>uploaded_file_path = ''./certificates/r1.pdf'', request_id = ''r1'', student_id = ''s1''\<rparr>"

section \<open>The extractor\<close>

lemma splitlines_sample:
  "splitlines sample_text =
     [''NPTEL Online Certification'', ''Elite'', ''This certificate is awarded to'',
      ''for successfully completing the course'', ''with a consolidated score of'',
      ''  Algorithms '', ''Jane Doe'', ''22/25'', ''66/75'', ''88'', ''Jan-Apr 2024'', ''R101'']"
  by (simp add: sample_text_def splitlines_def py_linebreak_def)

lemma splitlines_sample_r102:
  "splitlines sample_text_r102 =
     [''NPTEL Online Certification'', ''Elite'', ''This certificate is awarded to'',
      ''for successfully completing the course'', ''with a consolidated score of'',
      ''Algorithms'', ''Jane Doe'', ''22/25'', ''66/75'', ''88'', ''Jan-Apr 2024'', ''R102'']"
  by (simp add: sample_text_r102_def splitlines_def py_linebreak_def)

lemma strip_samples:
  "strip ''  Algorithms '' = ''Algorithms''" "strip ''Algorithms'' = ''Algorithms''"
  "strip ''Jane Doe'' = ''Jane Doe''" "strip ''88'' = ''88''"
  "strip ''R101'' = ''R101''" "strip ''R102'' = ''R102''"
  by (simp_all add: strip_def py_isspace_def)

lemma extract_sample:
  "extract_student_info_from_pdf (Some sample_text) =
     Inr (Some ''Algorithms'', Some ''Jane Doe'', Some ''88'', Some ''R101'')"
  by (simp add: extract_student_info_from_pdf_def extract_text_from_first_page_def
      splitlines_sample strip_samples)

lemma extract_sample_r102:
  "extract_student_info_from_pdf (Some sample_text_r102) =
     Inr (Some ''Algorithms'', Some ''Jane Doe'', Some ''88'', Some ''R102'')"
  by (simp add: extract_student_info_from_pdf_def extract_text_from_first_page_def
      splitlines_sample_r102 strip_samples)

text \<open>
  C3. Extraction gives the invalid result (four times \<open>None\<close>) exactly when the text of the
  first page does not split into twelve lines. On twelve lines it gives the course name
  from line 6, the student name from line 7, the total marks from line 10 and the roll
  number from line 12, each with the blanks around it removed.
\<close>

theorem extract_student_info_layout:
  "(extract_student_info_from_pdf (Some text) = Inr (None, None, None, None)
      \<longleftrightarrow> length (splitlines text) \<noteq> 12)
   \<and> (splitlines text = [l1, l2, l3, l4, l5, l6, l7, l8, l9, l10, l11, l12]
      \<longrightarrow> extract_student_info_from_pdf (Some text)
          = Inr (Some (strip l6), Some (strip l7), Some (strip l10), Some (strip l12)))"
  by (simp add: extract_student_info_from_pdf_def extract_text_from_first_page_def Let_def)

theorem extract_student_info_layout_witness:
  "extract_student_info_from_pdf (Some ''Algorithms\<newline>Jane Doe'') = Inr (None, None, None, None)
   \<and> extract_student_info_from_pdf (Some sample_text)
       = Inr (Some ''Algorithms'', Some ''Jane Doe'', Some ''88'', Some ''R101'')"
proof -
  have short: "length (splitlines ''Algorithms\<newline>Jane Doe'') \<noteq> 12"
    by (simp add: splitlines_def py_linebreak_def)
  have "extract_student_info_from_pdf (Some ''Algorithms\<newline>Jane Doe'')
          = Inr (None, None, None, None)"
    using extract_student_info_layout [of "''Algorithms\<newline>Jane Doe''"] short by blast
  moreover have "extract_student_info_from_pdf (Some sample_text)
      = Inr (Some (strip ''  Algorithms ''), Some (strip ''Jane Doe''), Some (strip ''88''),
             Some (strip ''R101''))"
    using extract_student_info_layout [of sample_text] splitlines_sample by blast
  ultimately show ?thesis by (simp add: strip_samples)
qed

section \<open>The comparator\<close>

lemma verify_fields_valid:
  "verify_fields (Some c, Some s, Some t, Some r) (Some c', Some s', Some t', Some r') subj stud =
     (if strip (lower c) \<noteq> strip (lower c') \<or> strip (lower c) \<noteq> strip (lower subj)
        then (False, ''Course name mismatch'', None, None)
      else if strip (lower s) \<noteq> strip (lower s') \<or> strip (lower s) \<noteq> strip (lower stud)
        then (False, ''Student name mismatch'', None, None)
      else if t \<noteq> t' then (False, ''Total marks mismatch'', None, None)
      else if r \<noteq> r' then (False, ''Roll number mismatch'', None, None)
      else (True, ''Verification successful'', Some r', Some t'))"
  unfolding verify_fields_def by simp

lemma first_failure_Cons:
  "first_failure ((b, m) # cs) = (if b then Some m else first_failure cs)"
  by (simp add: first_failure_def)

lemma first_failure_Nil: "first_failure [] = None"
  by (simp add: first_failure_def)

lemma first_failure_valid:
  "first_failure (comparator_checks (Some c, Some s, Some t, Some r) (Some c', Some s', Some t', Some r') subj stud) =
     (if strip (lower c) \<noteq> strip (lower c') \<or> strip (lower c) \<noteq> strip (lower subj)
        then Some ''Course name mismatch''
      else if strip (lower s) \<noteq> strip (lower s') \<or> strip (lower s) \<noteq> strip (lower stud)
        then Some ''Student name mismatch''
      else if t \<noteq> t' then Some ''Total marks mismatch''
      else if r \<noteq> r' then Some ''Roll number mismatch''
      else None)"
  unfolding comparator_checks_def by (simp only: prod.case first_failure_Cons first_failure_Nil option.map comp_apply option.inject option.distinct simp_thms if_False)

lemma not_missing_cases:
  assumes "\<not> missing f"
  obtains a b c d where "f = (Some a, Some b, Some c, Some d)"
  using assms by (cases f) (auto simp: missing_def)

lemma verify_fields_uploaded_missing:
  "missing uploaded \<Longrightarrow>
   verify_fields uploaded valid subj stud = (False, ''Invalid PDF uploaded. Data missing.'', None, None)"
  unfolding verify_fields_def missing_def by (cases uploaded; cases valid) simp

lemma verify_fields_valid_missing:
  "\<not> missing uploaded \<Longrightarrow> missing valid \<Longrightarrow>
   verify_fields uploaded valid subj stud = (False, ''Invalid details in the verification file'', None, None)"
  unfolding verify_fields_def missing_def by (cases uploaded; cases valid) simp

lemma first_failure_uploaded_missing:
  "missing uploaded \<Longrightarrow>
   first_failure (comparator_checks uploaded valid subj stud) = Some ''Invalid PDF uploaded. Data missing.''"
  unfolding comparator_checks_def missing_def
  by (cases uploaded; cases valid) (simp add: first_failure_Cons)

lemma first_failure_valid_missing:
  "\<not> missing uploaded \<Longrightarrow> missing valid \<Longrightarrow>
   first_failure (comparator_checks uploaded valid subj stud) = Some ''Invalid details in the verification file''"
  unfolding comparator_checks_def missing_def
  by (cases uploaded; cases valid) (simp add: first_failure_Cons)

lemma if_chain_option:
  "(if A then (False, m1, None, None) else if B then (False, m2, None, None)
    else if C then (False, m3, None, None) else if D then (False, m4, None, None)
    else (True, m, x, y)) =
   (case (if A then Some m1 else if B then Some m2 else if C then Some m3
          else if D then Some m4 else None) of
      Some reason \<Rightarrow> (False, reason, None, None)
    | None \<Rightarrow> (True, m, x, y))"
  by simp

lemma verify_fields_refines:
  "verify_fields uploaded valid subject_name student_name =
     (case first_failure (comparator_checks uploaded valid subject_name student_name) of
        Some reason \<Rightarrow> (False, reason, None, None)
      | None \<Rightarrow> (True, ''Verification successful'', snd (snd (snd valid)), fst (snd (snd valid))))"
proof (cases "missing uploaded")
  case True
  then show ?thesis
    by (simp add: verify_fields_uploaded_missing first_failure_uploaded_missing)
next
  case uploaded_ok: False
  show ?thesis
  proof (cases "missing valid")
    case True
    with uploaded_ok show ?thesis
      by (simp add: verify_fields_valid_missing first_failure_valid_missing)
  next
    case False
    from uploaded_ok obtain c s t r where u: "uploaded = (Some c, Some s, Some t, Some r)"
      by (rule not_missing_cases)
    from False obtain c' s' t' r' where v: "valid = (Some c', Some s', Some t', Some r')"
      by (rule not_missing_cases)
    show ?thesis
      unfolding u v verify_fields_valid first_failure_valid snd_conv fst_conv
      by (rule if_chain_option)
  qed
qed

lemma first_failure_None_iff:
  "first_failure checks = None \<longleftrightarrow> (\<forall>c \<in> set checks. \<not> fst c)"
  by (auto simp: first_failure_def find_None_iff)

lemma verify_fields_success_iff:
  "fst (verify_fields uploaded valid subject_name student_name)
     \<longleftrightarrow> (\<forall>c \<in> set (comparator_checks uploaded valid subject_name student_name). \<not> fst c)"
proof -
  let ?ff = "first_failure (comparator_checks uploaded valid subject_name student_name)"
  have "fst (verify_fields uploaded valid subject_name student_name) \<longleftrightarrow> ?ff = None"
    by (cases ?ff) (simp_all add: verify_fields_refines)
  then show ?thesis by (simp only: first_failure_None_iff)
qed

text \<open>
  C2. The comparator reports the reason of the first failing check in the order: uploaded
  side invalid, official side invalid, course name, student name, total marks, roll
  number, whatever the later checks would give; the names are compared in both directions
  after lowercasing and trimming, the marks and the roll number exactly. It reports
  success exactly when no check fails.
\<close>

theorem verify_fields_first_failure:
  "verify_fields uploaded valid subject_name student_name =
     (case first_failure (comparator_checks uploaded valid subject_name student_name) of
        Some reason \<Rightarrow> (False, reason, None, None)
      | None \<Rightarrow> (True, ''Verification successful'', snd (snd (snd valid)), fst (snd (snd valid))))
   \<and> (fst (verify_fields uploaded valid subject_name student_name)
        \<longleftrightarrow> (\<forall>c \<in> set (comparator_checks uploaded valid subject_name student_name). \<not> fst c))"
  using verify_fields_refines [of uploaded valid subject_name student_name]
    verify_fields_success_iff [of uploaded valid subject_name student_name]
  by (rule conjI)

theorem verify_fields_first_failure_witness:
  "verify_fields (Some ''Algorithms'', Some ''Jane Doe'', Some ''88'', Some ''R101'')
     (Some ''Databases'', Some ''John Roe'', Some ''90'', Some ''R102'') ''Algorithms'' ''Jane Doe''
     = (False, ''Course name mismatch'', None, None)
   \<and> verify_fields (Some '' ALGORITHMS'', Some ''jane doe '', Some ''88'', Some ''R101'')
     (Some ''Algorithms'', Some ''Jane Doe'', Some ''88'', Some ''R101'') ''algorithms'' ''JANE DOE''
     = (True, ''Verification successful'', Some ''R101'', Some ''88'')"
proof -
  have a: "first_failure (comparator_checks
        (Some ''Algorithms'', Some ''Jane Doe'', Some ''88'', Some ''R101'')
        (Some ''Databases'', Some ''John Roe'', Some ''90'', Some ''R102'') ''Algorithms'' ''Jane Doe'')
      = Some ''Course name mismatch''"
    by code_simp
  have b: "first_failure (comparator_checks
        (Some '' ALGORITHMS'', Some ''jane doe '', Some ''88'', Some ''R101'')
        (Some ''Algorithms'', Some ''Jane Doe'', Some ''88'', Some ''R101'') ''algorithms'' ''JANE DOE'')
      = None"
    by code_simp
  show ?thesis
    using verify_fields_first_failure [of "(Some ''Algorithms'', Some ''Jane Doe'', Some ''88'', Some ''R101'')"
        "(Some ''Databases'', Some ''John Roe'', Some ''90'', Some ''R102'')" "''Algorithms''" "''Jane Doe''"]
      verify_fields_first_failure [of "(Some '' ALGORITHMS'', Some ''jane doe '', Some ''88'', Some ''R101'')"
        "(Some ''Algorithms'', Some ''Jane Doe'', Some ''88'', Some ''R101'')" "''algorithms''" "''JANE DOE''"]
    unfolding a b by simp
qed

section \<open>Trimming\<close>

lemma dropWhile_strip: "dropWhile py_isspace (strip s) = strip s"
proof (cases "strip s")
  case Nil then show ?thesis by simp
next
  case (Cons x xs)
  define a where "a = dropWhile py_isspace s"
  define b where "b = dropWhile py_isspace (rev a)"
  have sb: "strip s = rev b" by (simp add: strip_def a_def b_def)
  have "rev a = takeWhile py_isspace (rev a) @ b" by (simp add: b_def)
  then have "rev (rev a) = rev (takeWhile py_isspace (rev a) @ b)" by simp
  then have split: "a = rev b @ rev (takeWhile py_isspace (rev a))" by simp
  have rb: "rev b = x # xs" using sb Cons by simp
  have a: "a = x # (xs @ rev (takeWhile py_isspace (rev a)))"
    by (rule split [unfolded rb append_Cons])
  have "a \<noteq> [] \<Longrightarrow> \<not> py_isspace (hd a)" unfolding a_def by (rule hd_dropWhile)
  with a have "\<not> py_isspace x" by (metis list.sel(1) list.distinct(1))
  with Cons show ?thesis by simp
qed

lemma strip_idem: "strip (strip s) = strip s"
proof -
  have "strip (strip s) = rev (dropWhile py_isspace (rev (strip s)))"
    unfolding strip_def [of "strip s"] dropWhile_strip ..
  also have "rev (strip s) = dropWhile py_isspace (rev (dropWhile py_isspace s))"
    by (simp add: strip_def)
  finally show ?thesis by (simp add: strip_def)
qed


lemma comparator_checks_names:
  "comparator_checks (Some c, Some s, t, r) (Some c', Some s', t', r') subj stud =
     [(t = None \<or> r = None, ''Invalid PDF uploaded. Data missing.''),
      (t' = None \<or> r' = None, ''Invalid details in the verification file''),
      (strip (lower c) \<noteq> strip (lower c') \<or> strip (lower c) \<noteq> strip (lower subj),
       ''Course name mismatch''),
      (strip (lower s) \<noteq> strip (lower s') \<or> strip (lower s) \<noteq> strip (lower stud),
       ''Student name mismatch''),
      (t \<noteq> t', ''Total marks mismatch''),
      (r \<noteq> r', ''Roll number mismatch'')]"
  unfolding comparator_checks_def
  by (simp only: prod.case option.map comp_apply option.inject option.distinct simp_thms)

lemma verify_fields_normalised:
  assumes "strip (lower c1) = strip (lower c2)" "strip (lower s1) = strip (lower s2)"
    and "strip (lower c1') = strip (lower c2')" "strip (lower s1') = strip (lower s2')"
    and "strip (lower subj1) = strip (lower subj2)" "strip (lower stud1) = strip (lower stud2)"
  shows "verify_fields (Some c1, Some s1, t, r) (Some c1', Some s1', t', r') subj1 stud1
       = verify_fields (Some c2, Some s2, t, r) (Some c2', Some s2', t', r') subj2 stud2"
  unfolding verify_fields_refines comparator_checks_names assms snd_conv fst_conv ..

lemma verify_fields_exact:
  assumes "fst (verify_fields (uc, us, ut, ur) (vc, vs, vt, vr) subj stud)"
  shows "ut = vt \<and> ur = vr"
proof -
  have "\<forall>c \<in> set (comparator_checks (uc, us, ut, ur) (vc, vs, vt, vr) subj stud). \<not> fst c"
    using assms verify_fields_success_iff by blast
  then show ?thesis
    unfolding comparator_checks_def prod.case by simp
qed

lemma extract_fields_trimmed:
  assumes "extract_student_info_from_pdf (Some text) = Inr (Some c, Some s, Some t, Some r)"
  shows "c = strip (splitlines text ! 5) \<and> s = strip (splitlines text ! 6)
       \<and> t = strip (splitlines text ! 9) \<and> r = strip (splitlines text ! 11)"
  using assms
  by (simp add: extract_student_info_from_pdf_def extract_text_from_first_page_def Let_def
      split: if_splits)

text \<open>
  C9, as stated, fails: extraction does not return the raw lines. On the sample page the
  sixth line carries blanks around the course name, and the extracted course name has
  none.
\<close>

theorem extraction_raw_counterexample:
  "extract_student_info_from_pdf (Some sample_text)
     \<noteq> Inr (Some (splitlines sample_text ! 5), Some (splitlines sample_text ! 6),
            Some (splitlines sample_text ! 9), Some (splitlines sample_text ! 11))"
  by (simp add: extract_sample splitlines_sample)

text \<open>
  C9, amended. Extraction returns each field as its line with the blanks around it
  removed, in the case it was written in, so that an extracted field is already trimmed.
  The comparator lowercases and trims again, for the course name and the student name
  only: its verdict depends on those names, uploaded, official and on record, through
  their lowercased and trimmed forms alone. The total marks and the roll number are
  compared exactly as extracted.
\<close>

theorem trimming_and_case:
  "(extract_student_info_from_pdf (Some page) = Inr (Some c, Some s, Some t, Some r) \<longrightarrow>
      c = strip (splitlines page ! 5) \<and> s = strip (splitlines page ! 6)
      \<and> t = strip (splitlines page ! 9) \<and> r = strip (splitlines page ! 11)
      \<and> strip c = c \<and> strip s = s \<and> strip t = t \<and> strip r = r)
   \<and> (strip (lower ca) = strip (lower cb) \<and> strip (lower sa) = strip (lower sb)
      \<and> strip (lower ca') = strip (lower cb') \<and> strip (lower sa') = strip (lower sb')
      \<and> strip (lower subja) = strip (lower subjb) \<and> strip (lower studa) = strip (lower studb)
      \<longrightarrow> verify_fields (Some ca, Some sa, ut, ur) (Some ca', Some sa', vt, vr) subja studa
        = verify_fields (Some cb, Some sb, ut, ur) (Some cb', Some sb', vt, vr) subjb studb)
   \<and> (fst (verify_fields (uc, us, ut, ur) (vc, vs, vt, vr) subj stud) \<longrightarrow> ut = vt \<and> ur = vr)"
proof (intro conjI impI)
  assume ex: "extract_student_info_from_pdf (Some page) = Inr (Some c, Some s, Some t, Some r)"
  note tr = extract_fields_trimmed [OF ex]
  from tr show "c = strip (splitlines page ! 5)" "s = strip (splitlines page ! 6)"
    "t = strip (splitlines page ! 9)" "r = strip (splitlines page ! 11)" by blast+
  from tr show "strip c = c" "strip s = s" "strip t = t" "strip r = r"
    by (simp_all only: strip_idem)
next
  assume "strip (lower ca) = strip (lower cb) \<and> strip (lower sa) = strip (lower sb)
      \<and> strip (lower ca') = strip (lower cb') \<and> strip (lower sa') = strip (lower sb')
      \<and> strip (lower subja) = strip (lower subjb) \<and> strip (lower studa) = strip (lower studb)"
  then show "verify_fields (Some ca, Some sa, ut, ur) (Some ca', Some sa', vt, vr) subja studa
        = verify_fields (Some cb, Some sb, ut, ur) (Some cb', Some sb', vt, vr) subjb studb"
    by (intro verify_fields_normalised) blast+
next
  assume "fst (verify_fields (uc, us, ut, ur) (vc, vs, vt, vr) subj stud)"
  then show "ut = vt" "ur = vr" using verify_fields_exact by blast+
qed


theorem trimming_and_case_witness:
  "''Algorithms'' = strip (splitlines sample_text ! 5) \<and> strip ''Algorithms'' = ''Algorithms''
   \<and> verify_fields (Some '' ALGORITHMS'', Some ''jane doe '', Some ''88'', Some ''R101'')
        (Some ''Algorithms'', Some ''Jane Doe'', Some ''88'', Some ''R101'') ''algorithms'' ''JANE DOE''
     = verify_fields (Some ''Algorithms'', Some ''Jane Doe'', Some ''88'', Some ''R101'')
        (Some ''Algorithms'', Some ''Jane Doe'', Some ''88'', Some ''R101'') ''Algorithms'' ''Jane Doe''
   \<and> fst (verify_fields (Some ''Algorithms'', Some ''Jane Doe'', Some ''88'', Some ''R101'')
        (Some ''Algorithms'', Some ''Jane Doe'', Some ''88'', Some ''R101'') ''Algorithms'' ''Jane Doe'')"
proof -
  have n: "strip (lower '' ALGORITHMS'') = strip (lower ''Algorithms'')"
    "strip (lower ''jane doe '') = strip (lower ''Jane Doe'')"
    "strip (lower ''algorithms'') = strip (lower ''Algorithms'')"
    "strip (lower ''JANE DOE'') = strip (lower ''Jane Doe'')"
    by code_simp+
  have ok: "fst (verify_fields (Some ''Algorithms'', Some ''Jane Doe'', Some ''88'', Some ''R101'')
        (Some ''Algorithms'', Some ''Jane Doe'', Some ''88'', Some ''R101'') ''Algorithms'' ''Jane Doe'')"
    by (simp add: verify_fields_valid)
  show ?thesis
    using trimming_and_case [where page = sample_text and c = "''Algorithms''"
        and s = "''Jane Doe''" and t = "''88''" and r = "''R101''"
        and ca = "'' ALGORITHMS''" and cb = "''Algorithms''"
        and sa = "''jane doe ''" and sb = "''Jane Doe''"
        and ca' = "''Algorithms''" and cb' = "''Algorithms''"
        and sa' = "''Jane Doe''" and sb' = "''Jane Doe''"
        and subja = "''algorithms''" and subjb = "''Algorithms''"
        and studa = "''JANE DOE''" and studb = "''Jane Doe''"
        and uc = "Some ''Algorithms''" and us = "Some ''Jane Doe''"
        and ut = "Some ''88''" and ur = "Some ''R101''"
        and vc = "Some ''Algorithms''" and vs = "Some ''Jane Doe''"
        and vt = "Some ''88''" and vr = "Some ''R101''"
        and subj = "''Algorithms''" and stud = "''Jane Doe''"]
      extract_sample n ok
    by blast
qed


section \<open>Reading the database after an assignment\<close>

lemma requests_set_request:
  "requests (set_request v f d) (request_id v) = map_option f (requests d (request_id v))"
  by (simp add: set_request_def split: option.splits)

lemma requests_set_request_other:
  "k \<noteq> request_id v \<Longrightarrow> requests (set_request v f d) k = requests d k"
  by (simp add: set_request_def split: option.splits)

lemma certificates_set_request: "certificates (set_request v f d) = certificates d"
  by (simp add: set_request_def split: option.splits)

lemma requests_set_certificate: "requests (set_certificate v g d) = requests d"
  by (simp add: set_certificate_def)

lemma find_update_first:
  "(\<And>x. P x \<Longrightarrow> P (f x)) \<Longrightarrow> find P (update_first P f xs) = map_option f (find P xs)"
  by (induction xs) auto


lemma query_certificate_set_request:
  "query_certificate v (set_request v f d) = query_certificate v d"
  by (simp add: query_certificate_def certificates_set_request)

lemma query_certificate_set_certificate:
  "(\<And>c. cert_request_id (g c) = cert_request_id c) \<Longrightarrow>
   query_certificate v (set_certificate v g d) = map_option g (query_certificate v d)"
  by (simp add: query_certificate_def set_certificate_def find_update_first)

lemma requests_set_outcome:
  "requests (set_outcome v st flag m d) (request_id v)
     = map_option (\<lambda>r. r\<lparr>status := st\<rparr>) (requests d (request_id v))"
  by (simp add: set_outcome_def requests_set_certificate requests_set_request)

lemma query_certificate_set_outcome:
  "query_certificate v (set_outcome v st flag m d)
     = map_option (\<lambda>c. c\<lparr>verified := flag, remark := Some m\<rparr>) (query_certificate v d)"
  by (simp add: set_outcome_def query_certificate_set_certificate query_certificate_set_request)

lemma requests_stage_upload:
  "requests (stage_upload v d) (request_id v)
     = map_option (\<lambda>r. r\<lparr>status := processing\<rparr>) (requests d (request_id v))"
  by (simp add: stage_upload_def Let_def requests_set_request split: option.splits)

lemma find_append_new:
  "find P xs = None \<Longrightarrow> P x \<Longrightarrow> find P (xs @ [x]) = Some x"
  by (induction xs) (auto split: if_splits)

lemma query_certificate_stage_upload:
  "query_certificate v (stage_upload v d) =
     Some (case query_certificate v d of
             None \<Rightarrow> \<lparr>cert_request_id = request_id v, cert_student_id = student_id v,
                       file_url = uploaded_file_path v, verification_file_url = None,
                       verified = False, remark = None\<rparr>
           | Some c \<Rightarrow> c)"
  by (simp add: stage_upload_def Let_def query_certificate_set_request query_certificate_def
      certificates_set_request find_append_new split: option.splits)

section \<open>The paths of \<open>start_verification\<close>\<close>

lemma db_commit_ok:
  "commit_succeeds e (commit_count w) \<Longrightarrow>
   db_commit e w = (Inr (), w\<lparr>store := session w, commit_count := Suc (commit_count w)\<rparr>)"
  by (simp add: db_commit_def)

lemma db_commit_fail:
  "\<not> commit_succeeds e (commit_count w) \<Longrightarrow>
   db_commit e w = (Inl CommitFailed, w\<lparr>commit_count := Suc (commit_count w)\<rparr>)"
  by (simp add: db_commit_def)

lemma update_status_to_rejected_ok:
  "commit_succeeds e (commit_count w) \<Longrightarrow>
   update_status_to_rejected v m e w =
     (Inl (HTTPException 400 m),
      w\<lparr>session := set_outcome v rejected False m (session w),
        store := set_outcome v rejected False m (session w),
        commit_count := Suc (commit_count w)\<rparr>)"
  by (simp add: update_status_to_rejected_def db_commit_ok)

lemma update_status_to_error_ok:
  "commit_succeeds e (commit_count w) \<Longrightarrow>
   update_status_to_error v m e w =
     (Inr (),
      w\<lparr>session := set_outcome v error False m (session w),
        store := set_outcome v error False m (session w),
        commit_count := Suc (commit_count w)\<rparr>)"
  by (simp add: update_status_to_error_def db_commit_ok)

lemma persist_upload_ok:
  "commit_succeeds e (commit_count w) \<Longrightarrow>
   persist_upload v e w =
     (Inr (),
      w\<lparr>session := stage_upload v (session w), store := stage_upload v (session w),
        commit_count := Suc (commit_count w)\<rparr>)"
  by (simp add: persist_upload_def db_commit_ok)

lemma persist_upload_fail:
  "\<not> commit_succeeds e (commit_count w) \<Longrightarrow> commit_succeeds e (Suc (commit_count w)) \<Longrightarrow>
   persist_upload v e w =
     (Inl CommitFailed,
      w\<lparr>session := set_outcome v error False ''An internal server error occurred'' (store w),
        store := set_outcome v error False ''An internal server error occurred'' (store w),
        commit_count := Suc (Suc (commit_count w))\<rparr>)"
  by (simp add: persist_upload_def db_commit_fail db_rollback_def update_status_to_error_ok)

lemma persist_upload_fail_twice:
  "\<not> commit_succeeds e (commit_count w) \<Longrightarrow> \<not> commit_succeeds e (Suc (commit_count w)) \<Longrightarrow>
   store (snd (persist_upload v e w)) = store w \<and> fst (persist_upload v e w) = Inl CommitFailed"
  by (simp add: persist_upload_def db_commit_fail db_rollback_def update_status_to_error_def)


lemma query_request_SomeD:
  "query_request v d = Some r \<Longrightarrow> requests d (request_id v) = Some r \<and> req_student_id r = student_id v"
  by (auto simp: query_request_def split: option.splits if_splits)

lemma query_request_None_iff:
  "query_request v d = None \<longleftrightarrow>
     (\<forall>r. requests d (request_id v) = Some r \<longrightarrow> req_student_id r \<noteq> student_id v)"
  by (auto simp: query_request_def split: option.splits)

lemma verify_upload_no_link:
  "extract_link e = None \<or> extract_link e = Some [] \<Longrightarrow>
   verify_upload v e r w = update_status_to_rejected v ''Verification link / QR not found'' e w"
  by (auto simp: verify_upload_def)

lemma verify_upload_download_failed:
  "extract_link e = Some l \<Longrightarrow> l \<noteq> [] \<Longrightarrow> \<not> fst (download_verification_pdf e l) \<Longrightarrow>
   verify_upload v e r w =
     update_status_to_error v ''Could not download the verification pdf'' e
       (w\<lparr>fetched := fetched w @ [l]\<rparr>)"
  by (cases "download_verification_pdf e l") (simp add: verify_upload_def Let_def)

lemma verify_upload_compared:
  "extract_link e = Some l \<Longrightarrow> l \<noteq> [] \<Longrightarrow> download_verification_pdf e l = (True, url, out) \<Longrightarrow>
   commit_succeeds e (commit_count w) \<Longrightarrow>
   verify_file (uploaded_file e) (verification_file e) (req_subject_name r) (req_student_name r)
     = Inr (ok, reason, a, b) \<Longrightarrow>
   verify_upload v e r w =
     (if \<not> ok
      then update_status_to_rejected v reason e
        (w\<lparr>fetched := fetched w @ [l],
           session := set_certificate v (\<lambda>c. c\<lparr>verification_file_url := Some url\<rparr>) (session w),
           store := set_certificate v (\<lambda>c. c\<lparr>verification_file_url := Some url\<rparr>) (session w),
           commit_count := Suc (commit_count w)\<rparr>)
      else db_commit e
        (w\<lparr>fetched := fetched w @ [l],
           store := set_certificate v (\<lambda>c. c\<lparr>verification_file_url := Some url\<rparr>) (session w),
           commit_count := Suc (commit_count w),
           session := set_outcome v completed True ''Verification successful''
             (set_certificate v (\<lambda>c. c\<lparr>verification_file_url := Some url\<rparr>) (session w))\<rparr>))"
  by (simp add: verify_upload_def Let_def db_commit_ok)

lemma start_verification_passed:
  "query_request v (session w) = Some r \<Longrightarrow> \<not> past_due e r \<Longrightarrow>
   commit_succeeds e (commit_count w) \<Longrightarrow>
   start_verification v e w =
     verify_upload v e r
       (w\<lparr>session := stage_upload v (session w), store := stage_upload v (session w),
          commit_count := Suc (commit_count w)\<rparr>)"
  by (simp add: start_verification_def persist_upload_ok)

lemma link_missing_run:
  assumes "query_request v (session w) = Some r" "\<not> past_due e r"
    and "extract_link e = None \<or> extract_link e = Some []"
    and "commit_succeeds e (commit_count w)" "commit_succeeds e (Suc (commit_count w))"
  shows "fst (start_verification v e w)
           = Inl (HTTPException 400 ''Verification link / QR not found'')"
    and "stored_status v (snd (start_verification v e w)) = Some rejected"
    and "map_option remark (stored_certificate v (snd (start_verification v e w)))
           = Some (Some ''Verification link / QR not found'')"
    and "map_option verified (stored_certificate v (snd (start_verification v e w))) = Some False"
    and "fetched (snd (start_verification v e w)) = fetched w"
proof -
  have run: "start_verification v e w =
      (Inl (HTTPException 400 ''Verification link / QR not found''),
       w\<lparr>session := set_outcome v rejected False ''Verification link / QR not found''
                      (stage_upload v (session w)),
         store := set_outcome v rejected False ''Verification link / QR not found''
                      (stage_upload v (session w)),
         commit_count := Suc (Suc (commit_count w))\<rparr>)"
    using assms
    by (simp add: start_verification_passed verify_upload_no_link update_status_to_rejected_ok)
  from query_request_SomeD [OF assms(1)] have req: "requests (session w) (request_id v) = Some r" ..
  show "fst (start_verification v e w)
           = Inl (HTTPException 400 ''Verification link / QR not found'')"
    by (simp add: run)
  show "stored_status v (snd (start_verification v e w)) = Some rejected"
    by (simp add: run stored_status_def requests_set_outcome requests_stage_upload req)
  show "map_option remark (stored_certificate v (snd (start_verification v e w)))
           = Some (Some ''Verification link / QR not found'')"
    by (simp add: run stored_certificate_def query_certificate_set_outcome
        query_certificate_stage_upload)
  show "map_option verified (stored_certificate v (snd (start_verification v e w))) = Some False"
    by (simp add: run stored_certificate_def query_certificate_set_outcome
        query_certificate_stage_upload)
  show "fetched (snd (start_verification v e w)) = fetched w"
    by (simp add: run)
qed

lemma sample_query:
  "query_request sample_verifier (session (fresh_world sample_db)) = Some sample_request"
  by (simp add: query_request_def sample_verifier_def fresh_world_def sample_db_def
      sample_request_def)

lemma sample_not_past_due: "\<not> past_due sample_env sample_request"
  "\<not> past_due env_no_link sample_request"
  by (simp_all add: past_due_def sample_env_def env_no_link_def sample_request_def)


lemma cert_url_stage:
  "query_certificate v (set_certificate v (\<lambda>c. c\<lparr>verification_file_url := Some url\<rparr>) d)
     = map_option (\<lambda>c. c\<lparr>verification_file_url := Some url\<rparr>) (query_certificate v d)"
  by (simp add: query_certificate_set_certificate)

lemma compared_run:
  assumes "query_request v (session w) = Some r" "\<not> past_due e r"
    and "extract_link e = Some l" "l \<noteq> []" "download_verification_pdf e l = (True, url, out)"
    and "verify_file (uploaded_file e) (verification_file e) (req_subject_name r)
           (req_student_name r) = Inr (ok, reason, a, b)"
    and "commit_succeeds e (commit_count w)" "commit_succeeds e (Suc (commit_count w))"
    and "commit_succeeds e (Suc (Suc (commit_count w)))"
  shows "fst (start_verification v e w)
           = (if ok then Inr () else Inl (HTTPException 400 reason))"
    and "stored_status v (snd (start_verification v e w))
           = Some (if ok then completed else rejected)"
    and "map_option verified (stored_certificate v (snd (start_verification v e w))) = Some ok"
    and "map_option remark (stored_certificate v (snd (start_verification v e w)))
           = Some (Some (if ok then ''Verification successful'' else reason))"
    and "fetched (snd (start_verification v e w)) = fetched w @ [l]"
proof -
  from query_request_SomeD [OF assms(1)] have req: "requests (session w) (request_id v) = Some r" ..
  let ?w1 = "w\<lparr>session := stage_upload v (session w), store := stage_upload v (session w),
          commit_count := Suc (commit_count w)\<rparr>"
  have start: "start_verification v e w = verify_upload v e r ?w1"
    using assms by (simp add: start_verification_passed)
  have step: "verify_upload v e r ?w1 =
     (if \<not> ok
      then update_status_to_rejected v reason e
        (?w1\<lparr>fetched := fetched ?w1 @ [l],
           session := set_certificate v (\<lambda>c. c\<lparr>verification_file_url := Some url\<rparr>) (session ?w1),
           store := set_certificate v (\<lambda>c. c\<lparr>verification_file_url := Some url\<rparr>) (session ?w1),
           commit_count := Suc (commit_count ?w1)\<rparr>)
      else db_commit e
        (?w1\<lparr>fetched := fetched ?w1 @ [l],
           store := set_certificate v (\<lambda>c. c\<lparr>verification_file_url := Some url\<rparr>) (session ?w1),
           commit_count := Suc (commit_count ?w1),
           session := set_outcome v completed True ''Verification successful''
             (set_certificate v (\<lambda>c. c\<lparr>verification_file_url := Some url\<rparr>) (session ?w1))\<rparr>))"
    using assms by (intro verify_upload_compared) simp_all
  show "fst (start_verification v e w)
           = (if ok then Inr () else Inl (HTTPException 400 reason))"
    unfolding start step using assms(9)
    by (simp add: update_status_to_rejected_ok db_commit_ok)
  show "stored_status v (snd (start_verification v e w))
           = Some (if ok then completed else rejected)"
    unfolding start step using assms(9)
    by (simp add: update_status_to_rejected_ok db_commit_ok stored_status_def
        requests_set_outcome requests_set_certificate requests_stage_upload req)
  show "map_option verified (stored_certificate v (snd (start_verification v e w))) = Some ok"
    unfolding start step using assms(9)
    by (simp add: update_status_to_rejected_ok db_commit_ok stored_certificate_def
        query_certificate_set_outcome cert_url_stage query_certificate_stage_upload)
  show "map_option remark (stored_certificate v (snd (start_verification v e w)))
           = Some (Some (if ok then ''Verification successful'' else reason))"
    unfolding start step using assms(9)
    by (simp add: update_status_to_rejected_ok db_commit_ok stored_certificate_def
        query_certificate_set_outcome cert_url_stage query_certificate_stage_upload)
  show "fetched (snd (start_verification v e w)) = fetched w @ [l]"
    unfolding start step using assms(9)
    by (simp add: update_status_to_rejected_ok db_commit_ok)
qed

lemma download_failed_run:
  assumes "query_request v (session w) = Some r" "\<not> past_due e r"
    and "extract_link e = Some l" "l \<noteq> []" "\<not> fst (download_verification_pdf e l)"
    and "commit_succeeds e (commit_count w)" "commit_succeeds e (Suc (commit_count w))"
  shows "fst (start_verification v e w) = Inr ()"
    and "stored_status v (snd (start_verification v e w)) = Some error"
    and "map_option verified (stored_certificate v (snd (start_verification v e w))) = Some False"
    and "map_option remark (stored_certificate v (snd (start_verification v e w)))
           = Some (Some ''Could not download the verification pdf'')"
proof -
  from query_request_SomeD [OF assms(1)] have req: "requests (session w) (request_id v) = Some r" ..
  have run: "start_verification v e w =
      (Inr (),
       w\<lparr>session := set_outcome v error False ''Could not download the verification pdf''
                      (stage_upload v (session w)),
         store := set_outcome v error False ''Could not download the verification pdf''
                      (stage_upload v (session w)),
         commit_count := Suc (Suc (commit_count w)), fetched := fetched w @ [l]\<rparr>)"
    using assms
    by (simp add: start_verification_passed verify_upload_download_failed
        update_status_to_error_ok)
  show "fst (start_verification v e w) = Inr ()" by (simp add: run)
  show "stored_status v (snd (start_verification v e w)) = Some error"
    by (simp add: run stored_status_def requests_set_outcome requests_stage_upload req)
  show "map_option verified (stored_certificate v (snd (start_verification v e w))) = Some False"
    by (simp add: run stored_certificate_def query_certificate_set_outcome
        query_certificate_stage_upload)
  show "map_option remark (stored_certificate v (snd (start_verification v e w)))
           = Some (Some ''Could not download the verification pdf'')"
    by (simp add: run stored_certificate_def query_certificate_set_outcome
        query_certificate_stage_upload)
qed

lemma commit_failed_run:
  assumes "query_request v (session w) = Some r" "\<not> past_due e r" "session w = store w"
    and "\<not> commit_succeeds e (commit_count w)" "commit_succeeds e (Suc (commit_count w))"
  shows "fst (start_verification v e w) = Inl CommitFailed"
    and "stored_status v (snd (start_verification v e w)) = Some error"
    and "stored_certificate v (snd (start_verification v e w))
           = map_option (\<lambda>c. c\<lparr>verified := False,
                                  remark := Some ''An internal server error occurred''\<rparr>)
               (query_certificate v (store w))"
proof -
  from query_request_SomeD [OF assms(1)] assms(3)
  have req: "requests (store w) (request_id v) = Some r" by simp
  have run: "start_verification v e w =
     (Inl CommitFailed,
      w\<lparr>session := set_outcome v error False ''An internal server error occurred'' (store w),
        store := set_outcome v error False ''An internal server error occurred'' (store w),
        commit_count := Suc (Suc (commit_count w))\<rparr>)"
    using assms by (simp add: start_verification_def persist_upload_fail)
  show "fst (start_verification v e w) = Inl CommitFailed" by (simp add: run)
  show "stored_status v (snd (start_verification v e w)) = Some error"
    by (simp add: run stored_status_def requests_set_outcome req)
  show "stored_certificate v (snd (start_verification v e w))
           = map_option (\<lambda>c. c\<lparr>verified := False,
                                  remark := Some ''An internal server error occurred''\<rparr>)
               (query_certificate v (store w))"
    by (simp add: run stored_certificate_def query_certificate_set_outcome)
qed

lemma commit_failed_twice_run:
  assumes "query_request v (session w) = Some r" "\<not> past_due e r"
    and "\<not> commit_succeeds e (commit_count w)" "\<not> commit_succeeds e (Suc (commit_count w))"
  shows "fst (start_verification v e w) = Inl CommitFailed"
    and "store (snd (start_verification v e w)) = store w"
  using assms persist_upload_fail_twice [of e w v]
  by (auto simp: start_verification_def split: prod.splits sum.splits)

lemma verify_file_match:
  assumes "extract_student_info_from_pdf up = Inr (Some c, Some s, Some t, Some n)"
    and "extract_student_info_from_pdf off = Inr (Some c, Some s, Some t, Some n)"
    and "strip (lower c) = strip (lower subj)" "strip (lower s) = strip (lower stud)"
  shows "verify_file up off subj stud = Inr (True, ''Verification successful'', Some n, Some t)"
  using assms by (simp add: verify_file_def verify_fields_valid)


section \<open>The guards\<close>

lemma late_outcomes:
  "fst (db_commit e w) = Inl (HTTPException c m) \<Longrightarrow> c = 400"
  "fst (update_status_to_error v t e w) = Inl (HTTPException c m) \<Longrightarrow> c = 400"
  "fst (update_status_to_rejected v t e w) = Inl (HTTPException c m) \<Longrightarrow> c = 400"
  by (auto simp: db_commit_def update_status_to_error_def update_status_to_rejected_def
      split: if_splits prod.splits sum.splits)

lemma persist_upload_outcome:
  "fst (persist_upload v e w) = Inl (HTTPException c m) \<Longrightarrow> c = 400"
  by (auto simp: persist_upload_def db_commit_def update_status_to_error_def
      split: if_splits prod.splits sum.splits)

lemma verify_file_outcome: "verify_file a b s t \<noteq> Inl (HTTPException c m)"
  by (auto simp: verify_file_def extract_student_info_from_pdf_def
      extract_text_from_first_page_def Let_def split: sum.splits option.splits if_splits)

lemma verify_upload_outcome:
  assumes "fst (verify_upload v e r w) = Inl (HTTPException c m)"
  shows "c = 400"
proof (cases "extract_link e = None \<or> extract_link e = Some []")
  case True
  with assms show ?thesis by (simp add: verify_upload_no_link late_outcomes)
next
  case False
  then obtain l where l: "extract_link e = Some l" "l \<noteq> []" by auto
  obtain ok url out where d: "download_verification_pdf e l = (ok, url, out)"
    by (cases "download_verification_pdf e l")
  show ?thesis
  proof (cases ok)
    case False
    with assms l d show ?thesis by (simp add: verify_upload_download_failed late_outcomes)
  next
    case True
    show ?thesis
    proof (cases "commit_succeeds e (commit_count w)")
      case False
      with assms l d True show ?thesis
        by (simp add: verify_upload_def Let_def db_commit_def)
    next
      case c1: True
      show ?thesis
      proof (cases "verify_file (uploaded_file e) (verification_file e) (req_subject_name r)
           (req_student_name r)")
        case (Inl ex)
        with assms l d True c1 verify_file_outcome [of "uploaded_file e" "verification_file e"
             "req_subject_name r" "req_student_name r" c m]
        show ?thesis by (simp add: verify_upload_def Let_def db_commit_ok)
      next
        case (Inr res)
        obtain ok' reason a b where res: "res = (ok', reason, a, b)" by (cases res)
        from d True have d': "download_verification_pdf e l = (True, url, out)" by simp
        from Inr res have vf: "verify_file (uploaded_file e) (verification_file e)
            (req_subject_name r) (req_student_name r) = Inr (ok', reason, a, b)" by simp
        from assms show ?thesis
          unfolding verify_upload_compared [OF l d' c1 vf]
          by (auto simp: late_outcomes split: if_splits)
      qed
    qed
  qed
qed

lemma guards_run:
  "query_request v (session w) = None \<Longrightarrow>
   start_verification v e w =
     (Inl (HTTPException 404 ''Request not found or does not belong to the current student''), w)"
  "query_request v (session w) = Some r \<Longrightarrow> past_due e r \<Longrightarrow>
   start_verification v e w = (Inl (HTTPException 403 ''Request is past the due date''), w)"
  by (simp_all add: start_verification_def)

lemma guards_only:
  assumes "fst (start_verification v e w) = Inl (HTTPException c m)" "c \<noteq> 400"
  shows "snd (start_verification v e w) = w"
proof (cases "query_request v (session w)")
  case None
  then show ?thesis by (simp add: guards_run)
next
  case (Some r)
  show ?thesis
  proof (cases "past_due e r")
    case True
    with Some show ?thesis by (simp add: guards_run)
  next
    case False
    obtain x w1 where p: "persist_upload v e w = (x, w1)" by (cases "persist_upload v e w")
    show ?thesis
    proof (cases x)
      case (Inl ex)
      with assms Some False p persist_upload_outcome [of v e w c m]
      show ?thesis by (simp add: start_verification_def)
    next
      case (Inr u)
      with assms Some False p verify_upload_outcome [of v e r w1 c m]
      show ?thesis by (simp add: start_verification_def)
    qed
  qed
qed

text \<open>
  C4. When the request is absent or belongs to another student the call raises the 404
  error, and when the request has a due date that the current time is past it raises the
  403 error; whenever the call raises either of the two, nothing is changed: the store,
  the session, and with them the status of the request and the certificate records, are
  as before the call.
\<close>

theorem guards_leave_state:
  "((\<forall>r. requests (session w) (request_id v) = Some r \<longrightarrow> req_student_id r \<noteq> student_id v)
      \<longrightarrow> start_verification v e w =
          (Inl (HTTPException 404
                  ''Request not found or does not belong to the current student''), w))
   \<and> (requests (session w) (request_id v) = Some r \<and> req_student_id r = student_id v
        \<and> due_date r = Some d \<and> now e > d
      \<longrightarrow> start_verification v e w = (Inl (HTTPException 403 ''Request is past the due date''), w))
   \<and> (fst (start_verification v e w) = Inl (HTTPException 404 m)
        \<or> fst (start_verification v e w) = Inl (HTTPException 403 m)
      \<longrightarrow> snd (start_verification v e w) = w)"
proof (intro conjI impI)
  assume "\<forall>r. requests (session w) (request_id v) = Some r \<longrightarrow> req_student_id r \<noteq> student_id v"
  then have "query_request v (session w) = None" by (simp only: query_request_None_iff)
  then show "start_verification v e w =
          (Inl (HTTPException 404
                  ''Request not found or does not belong to the current student''), w)"
    by (rule guards_run)
next
  assume a: "requests (session w) (request_id v) = Some r \<and> req_student_id r = student_id v
        \<and> due_date r = Some d \<and> now e > d"
  then have "query_request v (session w) = Some r" "past_due e r"
    by (simp_all add: query_request_def past_due_def)
  then show "start_verification v e w = (Inl (HTTPException 403 ''Request is past the due date''), w)"
    by (rule guards_run)
next
  assume "fst (start_verification v e w) = Inl (HTTPException 404 m)
        \<or> fst (start_verification v e w) = Inl (HTTPException 403 m)"
  then show "snd (start_verification v e w) = w"
    using guards_only [of v e w 404 m] guards_only [of v e w 403 m] by auto
qed


lemma sample_requests:
  "requests (session (fresh_world sample_db)) (request_id sample_verifier) = Some sample_request"
  by (simp add: fresh_world_def sample_db_def sample_verifier_def)

theorem guards_leave_state_witness:
  "start_verification (sample_verifier\<lparr>student_id := ''s2''\<rparr>) sample_env (fresh_world sample_db)
     = (Inl (HTTPException 404 ''Request not found or does not belong to the current student''),
        fresh_world sample_db)
   \<and> start_verification sample_verifier (sample_env\<lparr>now := 2000\<rparr>) (fresh_world sample_db)
     = (Inl (HTTPException 403 ''Request is past the due date''), fresh_world sample_db)
   \<and> snd (start_verification sample_verifier (sample_env\<lparr>now := 2000\<rparr>) (fresh_world sample_db))
     = fresh_world sample_db"
proof -
  have other: "\<forall>r. requests (session (fresh_world sample_db))
        (request_id (sample_verifier\<lparr>student_id := ''s2''\<rparr>)) = Some r
      \<longrightarrow> req_student_id r \<noteq> student_id (sample_verifier\<lparr>student_id := ''s2''\<rparr>)"
    by (simp add: fresh_world_def sample_db_def sample_verifier_def sample_request_def)
  have late: "requests (session (fresh_world sample_db)) (request_id sample_verifier)
        = Some sample_request
      \<and> req_student_id sample_request = student_id sample_verifier
      \<and> due_date sample_request = Some 1000 \<and> now (sample_env\<lparr>now := 2000\<rparr>) > 1000"
    by (simp add: sample_requests) (simp add: sample_request_def sample_verifier_def)
  note a = guards_leave_state [where w = "fresh_world sample_db"
      and v = "sample_verifier\<lparr>student_id := ''s2''\<rparr>" and e = sample_env]
  note b = guards_leave_state [where w = "fresh_world sample_db" and v = sample_verifier
      and r = sample_request and d = 1000 and e = "sample_env\<lparr>now := 2000\<rparr>"
      and m = "''Request is past the due date''"]
  from a other have 1: "start_verification (sample_verifier\<lparr>student_id := ''s2''\<rparr>) sample_env
      (fresh_world sample_db)
     = (Inl (HTTPException 404 ''Request not found or does not belong to the current student''),
        fresh_world sample_db)" by blast
  from b late have 2: "start_verification sample_verifier (sample_env\<lparr>now := 2000\<rparr>)
      (fresh_world sample_db)
     = (Inl (HTTPException 403 ''Request is past the due date''), fresh_world sample_db)" by blast
  then have "fst (start_verification sample_verifier (sample_env\<lparr>now := 2000\<rparr>)
      (fresh_world sample_db)) = Inl (HTTPException 403 ''Request is past the due date'')" by simp
  with b have 3: "snd (start_verification sample_verifier (sample_env\<lparr>now := 2000\<rparr>)
      (fresh_world sample_db)) = fresh_world sample_db" by blast
  from 1 2 3 show ?thesis by blast
qed

section \<open>The successful upload\<close>

lemma sample_due: "\<not> past_due ee sample_request" if "now ee = 500"
  using that by (simp add: past_due_def sample_request_def)

lemma sample_now: "now sample_env = 500" "now env_no_link = 500" "now env_download_fails = 500"
  "now env_roll_mismatch = 500" "now env_no_commit = 500" "now env_first_commit_fails = 500"
  "now env_second_commit_fails = 500"
  by (simp_all add: sample_env_def env_no_link_def env_download_fails_def env_roll_mismatch_def
      env_no_commit_def env_first_commit_fails_def env_second_commit_fails_def)

lemma sample_verify_file:
  "verify_file (uploaded_file sample_env) (verification_file sample_env)
     (req_subject_name sample_request) (req_student_name sample_request)
   = Inr (True, ''Verification successful'', Some ''R101'', Some ''88'')"
  by (rule verify_file_match)
     (simp_all add: sample_env_def sample_request_def extract_sample)

lemma sample_run:
  "fst (start_verification sample_verifier sample_env (fresh_world sample_db)) = Inr ()"
  "stored_status sample_verifier
     (snd (start_verification sample_verifier sample_env (fresh_world sample_db))) = Some completed"
  "map_option verified (stored_certificate sample_verifier
     (snd (start_verification sample_verifier sample_env (fresh_world sample_db)))) = Some True"
  "map_option remark (stored_certificate sample_verifier
     (snd (start_verification sample_verifier sample_env (fresh_world sample_db))))
     = Some (Some ''Verification successful'')"
  using compared_run [of sample_verifier "fresh_world sample_db" sample_request sample_env
      "''https://nptel.example/v''" "''https://nptel.example/v.pdf''" "[]" True
      "''Verification successful''" "Some ''R101''" "Some ''88''",
      OF sample_query sample_due [OF sample_now(1)] _ _ _ sample_verify_file]
  by (simp_all add: sample_env_def)

text \<open>
  C1, as stated, fails: on the sample upload, whose fields equal the official copy's and
  match the names on record, the call ends completed and verified, and the remark it
  stores is not the string \<open>verification successful\<close>.
\<close>

theorem success_remark_counterexample:
  "extract_student_info_from_pdf (uploaded_file sample_env)
     = extract_student_info_from_pdf (verification_file sample_env)
   \<and> stored_status sample_verifier
       (snd (start_verification sample_verifier sample_env (fresh_world sample_db)))
     = Some completed
   \<and> map_option remark (stored_certificate sample_verifier
       (snd (start_verification sample_verifier sample_env (fresh_world sample_db))))
     \<noteq> Some (Some ''verification successful'')"
  by (simp add: sample_run) (simp add: sample_env_def)

text \<open>
  C1, amended. When the request is found and not past its due date, a link is read and
  the download succeeds, every commit of the call succeeds, both documents have the
  twelve-line layout with equal extracted fields, and the course and student names match
  the names on record after lowercasing and trimming, then \<open>start_verification\<close> returns
  with the stored status \<open>completed\<close>, the verified flag set and the remark
  \<open>Verification successful\<close>.
\<close>

theorem matching_upload_completes:
  assumes "query_request v (session w) = Some r" and "\<not> past_due e r"
    and "extract_link e = Some l" and "l \<noteq> []"
    and "download_verification_pdf e l = (True, url, out)"
    and "extract_student_info_from_pdf (uploaded_file e) = Inr (Some c, Some s, Some t, Some n)"
    and "extract_student_info_from_pdf (verification_file e)
           = Inr (Some c, Some s, Some t, Some n)"
    and "strip (lower c) = strip (lower (req_subject_name r))"
    and "strip (lower s) = strip (lower (req_student_name r))"
    and "commit_succeeds e (commit_count w)" and "commit_succeeds e (Suc (commit_count w))"
    and "commit_succeeds e (Suc (Suc (commit_count w)))"
  shows "fst (start_verification v e w) = Inr ()
    \<and> stored_status v (snd (start_verification v e w)) = Some completed
    \<and> map_option verified (stored_certificate v (snd (start_verification v e w))) = Some True
    \<and> map_option remark (stored_certificate v (snd (start_verification v e w)))
        = Some (Some ''Verification successful'')"
proof -
  have vf: "verify_file (uploaded_file e) (verification_file e) (req_subject_name r)
      (req_student_name r) = Inr (True, ''Verification successful'', Some n, Some t)"
    using assms(6-9) by (rule verify_file_match)
  note run = compared_run [OF assms(1-5) vf assms(10-12)]
  from run(1) run(2) run(3) run(4) show ?thesis by (simp only: if_True simp_thms)
qed

theorem matching_upload_completes_witness:
  "fst (start_verification sample_verifier sample_env (fresh_world sample_db)) = Inr ()
    \<and> stored_status sample_verifier
        (snd (start_verification sample_verifier sample_env (fresh_world sample_db)))
      = Some completed
    \<and> map_option verified (stored_certificate sample_verifier
        (snd (start_verification sample_verifier sample_env (fresh_world sample_db)))) = Some True
    \<and> map_option remark (stored_certificate sample_verifier
        (snd (start_verification sample_verifier sample_env (fresh_world sample_db))))
        = Some (Some ''Verification successful'')"
proof (rule matching_upload_completes [where r = sample_request
      and l = "''https://nptel.example/v''" and url = "''https://nptel.example/v.pdf''"
      and out = "[]" and c = "''Algorithms''" and s = "''Jane Doe''" and t = "''88''"
      and n = "''R101''"])
  show "query_request sample_verifier (session (fresh_world sample_db)) = Some sample_request"
    by (rule sample_query)
  show "\<not> past_due sample_env sample_request" by (rule sample_due [OF sample_now(1)])
qed (simp_all add: sample_env_def extract_sample sample_request_def fresh_world_def)


section \<open>Returning and raising\<close>

lemma rejected_never_returns: "fst (update_status_to_rejected v m e w) \<noteq> Inr u"
  by (simp add: update_status_to_rejected_def split: prod.splits sum.splits)

lemma db_commit_returns: "fst (db_commit e w) = Inr u \<Longrightarrow> commit_succeeds e (commit_count w)"
  by (simp add: db_commit_def split: if_splits)

lemma persist_upload_fail_raises:
  "\<not> commit_succeeds e (commit_count w) \<Longrightarrow> fst (persist_upload v e w) \<noteq> Inr u"
  by (simp add: persist_upload_def db_commit_fail split: prod.splits sum.splits)

lemma normal_return:
  assumes ret: "fst (start_verification v e w) = Inr ()"
  shows "stored_status v (snd (start_verification v e w)) = Some completed
       \<or> stored_status v (snd (start_verification v e w)) = Some error"
proof (cases "query_request v (session w)")
  case None
  with ret show ?thesis by (simp add: guards_run)
next
  case (Some r)
  show ?thesis
  proof (cases "past_due e r")
    case True
    with ret Some show ?thesis by (simp add: guards_run)
  next
    case due: False
    show ?thesis
    proof (cases "commit_succeeds e (commit_count w)")
      case False
      from persist_upload_fail_raises [OF False, of v] ret Some due show ?thesis
        by (auto simp: start_verification_def split: prod.splits sum.splits)
    next
      case c0: True
      let ?w1 = "w\<lparr>session := stage_upload v (session w), store := stage_upload v (session w),
          commit_count := Suc (commit_count w)\<rparr>"
      have start: "start_verification v e w = verify_upload v e r ?w1"
        using Some due c0 by (rule start_verification_passed)
      show ?thesis
      proof (cases "extract_link e = None \<or> extract_link e = Some []")
        case True
        with ret show ?thesis
          unfolding start by (simp add: verify_upload_no_link rejected_never_returns)
      next
        case False
        then obtain l where l: "extract_link e = Some l" "l \<noteq> []" by auto
        obtain ok url out where d: "download_verification_pdf e l = (ok, url, out)"
          by (cases "download_verification_pdf e l")
        show ?thesis
        proof (cases ok)
          case False
          with d have nd: "\<not> fst (download_verification_pdf e l)" by simp
          from ret have "fst (update_status_to_error v ''Could not download the verification pdf''
              e (?w1\<lparr>fetched := fetched ?w1 @ [l]\<rparr>)) = Inr ()"
            unfolding start verify_upload_download_failed [OF l nd] .
          then have "commit_succeeds e (Suc (commit_count w))"
            by (auto simp: update_status_to_error_def dest: db_commit_returns)
          from download_failed_run(2) [OF Some due l nd c0 this] show ?thesis ..
        next
          case True
          with d have d': "download_verification_pdf e l = (True, url, out)" by simp
          show ?thesis
          proof (cases "commit_succeeds e (Suc (commit_count w))")
            case False
            with ret l d' show ?thesis
              unfolding start by (simp add: verify_upload_def Let_def db_commit_def)
          next
            case c1: True
            then have c1': "commit_succeeds e (commit_count ?w1)" by simp
            show ?thesis
            proof (cases "verify_file (uploaded_file e) (verification_file e)
                (req_subject_name r) (req_student_name r)")
              case (Inl ex)
              with ret l d' c1 show ?thesis
                unfolding start by (simp add: verify_upload_def Let_def db_commit_ok)
            next
              case (Inr res)
              obtain ok' reason a b where res: "res = (ok', reason, a, b)" by (cases res)
              from Inr res have vf: "verify_file (uploaded_file e) (verification_file e)
                  (req_subject_name r) (req_student_name r) = Inr (ok', reason, a, b)" by simp
              note step = verify_upload_compared [OF l d' c1' vf, of v]
              show ?thesis
              proof (cases ok')
                case False
                with ret show ?thesis
                  unfolding start step by (simp add: rejected_never_returns)
              next
                case True
                with ret have "commit_succeeds e (Suc (Suc (commit_count w)))"
                  unfolding start step by (auto dest: db_commit_returns)
                from compared_run(2) [OF Some due l d' vf c0 c1 this] True
                show ?thesis by simp
              qed
            qed
          qed
        qed
      qed
    qed
  qed
qed


section \<open>The missing link\<close>

lemma sample_commits:
  "commit_succeeds sample_env k" "commit_succeeds env_no_link k"
  "commit_succeeds env_download_fails k" "commit_succeeds env_roll_mismatch k"
  "\<not> commit_succeeds env_no_commit k"
  "commit_succeeds env_first_commit_fails k \<longleftrightarrow> k \<noteq> 0"
  "commit_succeeds env_second_commit_fails k \<longleftrightarrow> k \<noteq> 1"
  by (simp_all add: sample_env_def env_no_link_def env_download_fails_def env_roll_mismatch_def
      env_no_commit_def env_first_commit_fails_def env_second_commit_fails_def)

lemma sample_no_link: "extract_link env_no_link = None"
  by (simp add: env_no_link_def)

lemma no_link_run:
  "fst (start_verification sample_verifier env_no_link (fresh_world sample_db))
     = Inl (HTTPException 400 ''Verification link / QR not found'')"
  "stored_status sample_verifier
     (snd (start_verification sample_verifier env_no_link (fresh_world sample_db)))
     = Some rejected"
  "map_option remark (stored_certificate sample_verifier
     (snd (start_verification sample_verifier env_no_link (fresh_world sample_db))))
     = Some (Some ''Verification link / QR not found'')"
  by (rule link_missing_run [OF sample_query sample_due [OF sample_now(2)]];
      simp add: sample_no_link sample_commits)+

text \<open>
  C5, as stated, fails: on the sample upload with no link on its first page the request
  is rejected, and the remark stored is not the string \<open>verification link not found\<close>.
\<close>

theorem link_remark_counterexample:
  "extract_link env_no_link = None
   \<and> stored_status sample_verifier
       (snd (start_verification sample_verifier env_no_link (fresh_world sample_db)))
     = Some rejected
   \<and> map_option remark (stored_certificate sample_verifier
       (snd (start_verification sample_verifier env_no_link (fresh_world sample_db))))
     \<noteq> Some (Some ''verification link not found'')"
  by (simp add: no_link_run sample_no_link)

text \<open>
  C5, amended. When the request passes the guards, no link is read from the first page
  of the uploaded document (the result is \<open>None\<close> or the empty string) and the two commits
  of the call succeed, \<open>start_verification\<close> stores the status \<open>rejected\<close>, the verified
  flag unset and the remark \<open>Verification link / QR not found\<close>, raises the 400 error and
  hands no link to the downloader.
\<close>

theorem missing_link_rejects:
  assumes "query_request v (session w) = Some r" and "\<not> past_due e r"
    and "extract_link e = None \<or> extract_link e = Some []"
    and "commit_succeeds e (commit_count w)" and "commit_succeeds e (Suc (commit_count w))"
  shows "fst (start_verification v e w)
           = Inl (HTTPException 400 ''Verification link / QR not found'')
    \<and> stored_status v (snd (start_verification v e w)) = Some rejected
    \<and> map_option remark (stored_certificate v (snd (start_verification v e w)))
        = Some (Some ''Verification link / QR not found'')
    \<and> map_option verified (stored_certificate v (snd (start_verification v e w))) = Some False
    \<and> fetched (snd (start_verification v e w)) = fetched w"
  using link_missing_run [OF assms] by (intro conjI)

theorem missing_link_rejects_witness:
  "fst (start_verification sample_verifier env_no_link (fresh_world sample_db))
           = Inl (HTTPException 400 ''Verification link / QR not found'')
    \<and> stored_status sample_verifier
        (snd (start_verification sample_verifier env_no_link (fresh_world sample_db)))
        = Some rejected
    \<and> map_option remark (stored_certificate sample_verifier
        (snd (start_verification sample_verifier env_no_link (fresh_world sample_db))))
        = Some (Some ''Verification link / QR not found'')
    \<and> map_option verified (stored_certificate sample_verifier
        (snd (start_verification sample_verifier env_no_link (fresh_world sample_db))))
        = Some False
    \<and> fetched (snd (start_verification sample_verifier env_no_link (fresh_world sample_db)))
        = fetched (fresh_world sample_db)"
  by (rule missing_link_rejects [OF sample_query sample_due [OF sample_now(2)]])
     (simp_all add: sample_no_link sample_commits)

section \<open>Failures of the retrieval and of the first commit\<close>

lemma outage_run:
  "store (snd (start_verification sample_verifier env_no_commit (fresh_world sample_db)))
     = store (fresh_world sample_db)"
  by (rule commit_failed_twice_run [OF sample_query sample_due [OF sample_now(5)]])
     (simp_all add: sample_commits)

text \<open>
  C6, as stated, fails: when the database is down the first commit fails and so does the
  commit of \<open>update_status_to_error\<close>; the stored request keeps the status it had, here
  \<open>pending\<close>, and is not driven to \<open>error\<close>.
\<close>

theorem commit_outage_counterexample:
  "\<not> commit_succeeds env_no_commit (commit_count (fresh_world sample_db))
   \<and> stored_status sample_verifier
       (snd (start_verification sample_verifier env_no_commit (fresh_world sample_db)))
     = Some pending
   \<and> stored_status sample_verifier
       (snd (start_verification sample_verifier env_no_commit (fresh_world sample_db)))
     \<noteq> Some error"
  by (simp add: stored_status_def outage_run sample_commits)
     (simp add: fresh_world_def sample_db_def sample_verifier_def sample_request_def)

text \<open>
  C6, amended. Provided that the commit made by \<open>update_status_to_error\<close> succeeds: when
  the first commit of the call fails (on a session without pending changes), the call
  raises the exception of that commit and the stored status is \<open>error\<close>, and a
  certificate of the request that was stored before the call now has the verified flag
  unset and the remark \<open>An internal server error occurred\<close> (a certificate created by this
  call is rolled back, so none is stored for a first upload); when the download fails,
  the call returns and the stored status is \<open>error\<close>, with the verified flag unset and the
  remark \<open>Could not download the verification pdf\<close> on the stored certificate. In both
  cases the stored status is neither \<open>rejected\<close> nor \<open>processing\<close>.
\<close>

theorem failures_end_in_error:
  "(query_request v (session w) = Some r \<and> \<not> past_due e r \<and> session w = store w
      \<and> \<not> commit_succeeds e (commit_count w) \<and> commit_succeeds e (Suc (commit_count w))
    \<longrightarrow> fst (start_verification v e w) = Inl CommitFailed
      \<and> stored_status v (snd (start_verification v e w)) = Some error
      \<and> stored_certificate v (snd (start_verification v e w))
          = map_option (\<lambda>c. c\<lparr>verified := False,
                                 remark := Some ''An internal server error occurred''\<rparr>)
              (query_certificate v (store w)))
   \<and> (query_request v (session w) = Some r \<and> \<not> past_due e r
      \<and> extract_link e = Some l \<and> l \<noteq> [] \<and> \<not> fst (download_verification_pdf e l)
      \<and> commit_succeeds e (commit_count w) \<and> commit_succeeds e (Suc (commit_count w))
    \<longrightarrow> fst (start_verification v e w) = Inr ()
      \<and> stored_status v (snd (start_verification v e w)) = Some error
      \<and> map_option verified (stored_certificate v (snd (start_verification v e w))) = Some False
      \<and> map_option remark (stored_certificate v (snd (start_verification v e w)))
          = Some (Some ''Could not download the verification pdf''))"
proof (intro conjI impI; elim conjE)
  assume a: "query_request v (session w) = Some r" "\<not> past_due e r" "session w = store w"
    "\<not> commit_succeeds e (commit_count w)" "commit_succeeds e (Suc (commit_count w))"
  show "fst (start_verification v e w) = Inl CommitFailed"
    by (rule commit_failed_run(1) [OF a])
  show "stored_status v (snd (start_verification v e w)) = Some error"
    by (rule commit_failed_run(2) [OF a])
  show "stored_certificate v (snd (start_verification v e w))
          = map_option (\<lambda>c. c\<lparr>verified := False,
                                 remark := Some ''An internal server error occurred''\<rparr>)
              (query_certificate v (store w))"
    by (rule commit_failed_run(3) [OF a])
next
  assume a: "query_request v (session w) = Some r" "\<not> past_due e r"
    "extract_link e = Some l" "l \<noteq> []" "\<not> fst (download_verification_pdf e l)"
    "commit_succeeds e (commit_count w)" "commit_succeeds e (Suc (commit_count w))"
  show "fst (start_verification v e w) = Inr ()"
    by (rule download_failed_run(1) [OF a])
  show "stored_status v (snd (start_verification v e w)) = Some error"
    by (rule download_failed_run(2) [OF a])
  show "map_option verified (stored_certificate v (snd (start_verification v e w))) = Some False"
    by (rule download_failed_run(3) [OF a])
  show "map_option remark (stored_certificate v (snd (start_verification v e w)))
          = Some (Some ''Could not download the verification pdf'')"
    by (rule download_failed_run(4) [OF a])
qed

lemma rejected_query:
  "query_request sample_verifier (session (fresh_world rejected_db))
     = Some (sample_request\<lparr>status := rejected\<rparr>)"
  by (simp add: query_request_def sample_verifier_def fresh_world_def rejected_db_def
      sample_request_def)

lemma sample_download_fails:
  "extract_link env_download_fails = Some ''https://nptel.example/v''"
  "\<not> fst (download_verification_pdf env_download_fails ''https://nptel.example/v'')"
  by (simp_all add: env_download_fails_def sample_env_def)

theorem failures_end_in_error_witness:
  "(fst (start_verification sample_verifier env_first_commit_fails (fresh_world rejected_db))
      = Inl CommitFailed
    \<and> stored_status sample_verifier
        (snd (start_verification sample_verifier env_first_commit_fails (fresh_world rejected_db)))
      = Some error
    \<and> map_option remark (stored_certificate sample_verifier
        (snd (start_verification sample_verifier env_first_commit_fails (fresh_world rejected_db))))
      = Some (Some ''An internal server error occurred''))
   \<and> (fst (start_verification sample_verifier env_download_fails (fresh_world sample_db)) = Inr ()
    \<and> stored_status sample_verifier
        (snd (start_verification sample_verifier env_download_fails (fresh_world sample_db)))
      = Some error
    \<and> map_option remark (stored_certificate sample_verifier
        (snd (start_verification sample_verifier env_download_fails (fresh_world sample_db))))
      = Some (Some ''Could not download the verification pdf''))"
proof -
  have h1: "query_request sample_verifier (session (fresh_world rejected_db))
        = Some (sample_request\<lparr>status := rejected\<rparr>)
      \<and> \<not> past_due env_first_commit_fails (sample_request\<lparr>status := rejected\<rparr>)
      \<and> session (fresh_world rejected_db) = store (fresh_world rejected_db)
      \<and> \<not> commit_succeeds env_first_commit_fails (commit_count (fresh_world rejected_db))
      \<and> commit_succeeds env_first_commit_fails (Suc (commit_count (fresh_world rejected_db)))"
    by (simp add: rejected_query sample_commits)
       (simp add: fresh_world_def past_due_def sample_request_def sample_now)
  have h2: "query_request sample_verifier (session (fresh_world sample_db)) = Some sample_request
      \<and> \<not> past_due env_download_fails sample_request
      \<and> extract_link env_download_fails = Some ''https://nptel.example/v''
      \<and> ''https://nptel.example/v'' \<noteq> []
      \<and> \<not> fst (download_verification_pdf env_download_fails ''https://nptel.example/v'')
      \<and> commit_succeeds env_download_fails (commit_count (fresh_world sample_db))
      \<and> commit_succeeds env_download_fails (Suc (commit_count (fresh_world sample_db)))"
    by (simp add: sample_query sample_due [OF sample_now(3)] sample_download_fails
        sample_commits)
  have q: "query_certificate sample_verifier (store (fresh_world rejected_db))
      = Some \<lparr>cert_request_id = ''r1'', cert_student_id = ''s1'', file_url = ''old.pdf'',
          verification_file_url = None, verified = False,
          remark = Some ''Verification link / QR not found''\<rparr>"
    by (simp add: query_certificate_def fresh_world_def rejected_db_def sample_verifier_def)
  note a = failures_end_in_error [where v = sample_verifier and w = "fresh_world rejected_db"
      and r = "sample_request\<lparr>status := rejected\<rparr>" and e = env_first_commit_fails]
  note b = failures_end_in_error [where v = sample_verifier and w = "fresh_world sample_db"
      and r = sample_request and e = env_download_fails and l = "''https://nptel.example/v''"]
  from a h1 have "fst (start_verification sample_verifier env_first_commit_fails
        (fresh_world rejected_db)) = Inl CommitFailed
    \<and> stored_status sample_verifier
        (snd (start_verification sample_verifier env_first_commit_fails (fresh_world rejected_db)))
      = Some error
    \<and> stored_certificate sample_verifier
        (snd (start_verification sample_verifier env_first_commit_fails (fresh_world rejected_db)))
      = map_option (\<lambda>c. c\<lparr>verified := False,
                             remark := Some ''An internal server error occurred''\<rparr>)
          (query_certificate sample_verifier (store (fresh_world rejected_db)))"
    by blast
  moreover from b h2 have
    "fst (start_verification sample_verifier env_download_fails (fresh_world sample_db)) = Inr ()
    \<and> stored_status sample_verifier
        (snd (start_verification sample_verifier env_download_fails (fresh_world sample_db)))
      = Some error
    \<and> map_option verified (stored_certificate sample_verifier
        (snd (start_verification sample_verifier env_download_fails (fresh_world sample_db))))
      = Some False
    \<and> map_option remark (stored_certificate sample_verifier
        (snd (start_verification sample_verifier env_download_fails (fresh_world sample_db))))
      = Some (Some ''Could not download the verification pdf'')"
    by blast
  ultimately show ?thesis by (simp add: q)
qed


section \<open>Rejections raise\<close>

text \<open>
  C10. On the two paths that reject, the missing link and the failed comparison,
  \<open>start_verification\<close> stores the status \<open>rejected\<close> with the verified flag unset and then
  raises the 400 error whose detail is the remark it stored; when the download fails it
  stores the status \<open>error\<close> and returns. Whenever the call returns, the stored status is
  not \<open>rejected\<close>.
\<close>

theorem rejection_raises:
  "(query_request v (session w) = Some r \<and> \<not> past_due e r
      \<and> (extract_link e = None \<or> extract_link e = Some [])
      \<and> commit_succeeds e (commit_count w) \<and> commit_succeeds e (Suc (commit_count w))
    \<longrightarrow> fst (start_verification v e w)
          = Inl (HTTPException 400 ''Verification link / QR not found'')
      \<and> stored_status v (snd (start_verification v e w)) = Some rejected
      \<and> map_option verified (stored_certificate v (snd (start_verification v e w))) = Some False
      \<and> map_option remark (stored_certificate v (snd (start_verification v e w)))
          = Some (Some ''Verification link / QR not found''))
   \<and> (query_request v (session w) = Some r \<and> \<not> past_due e r
      \<and> extract_link e = Some l \<and> l \<noteq> []
      \<and> download_verification_pdf e l = (True, url, out)
      \<and> verify_file (uploaded_file e) (verification_file e) (req_subject_name r)
           (req_student_name r) = Inr (False, reason, a, b)
      \<and> commit_succeeds e (commit_count w) \<and> commit_succeeds e (Suc (commit_count w))
      \<and> commit_succeeds e (Suc (Suc (commit_count w)))
    \<longrightarrow> fst (start_verification v e w) = Inl (HTTPException 400 reason)
      \<and> stored_status v (snd (start_verification v e w)) = Some rejected
      \<and> map_option verified (stored_certificate v (snd (start_verification v e w))) = Some False
      \<and> map_option remark (stored_certificate v (snd (start_verification v e w)))
          = Some (Some reason))
   \<and> (query_request v (session w) = Some r \<and> \<not> past_due e r
      \<and> extract_link e = Some l \<and> l \<noteq> [] \<and> \<not> fst (download_verification_pdf e l)
      \<and> commit_succeeds e (commit_count w) \<and> commit_succeeds e (Suc (commit_count w))
    \<longrightarrow> fst (start_verification v e w) = Inr ()
      \<and> stored_status v (snd (start_verification v e w)) = Some error)
   \<and> (fst (start_verification v e w) = Inr ()
    \<longrightarrow> stored_status v (snd (start_verification v e w)) \<noteq> Some rejected)"
proof (intro conjI impI; (elim conjE)?)
  assume a: "query_request v (session w) = Some r" "\<not> past_due e r"
    "extract_link e = None \<or> extract_link e = Some []"
    "commit_succeeds e (commit_count w)" "commit_succeeds e (Suc (commit_count w))"
  show "fst (start_verification v e w)
          = Inl (HTTPException 400 ''Verification link / QR not found'')"
    by (rule link_missing_run(1) [OF a])
  show "stored_status v (snd (start_verification v e w)) = Some rejected"
    by (rule link_missing_run(2) [OF a])
  show "map_option verified (stored_certificate v (snd (start_verification v e w))) = Some False"
    by (rule link_missing_run(4) [OF a])
  show "map_option remark (stored_certificate v (snd (start_verification v e w)))
          = Some (Some ''Verification link / QR not found'')"
    by (rule link_missing_run(3) [OF a])
next
  assume a: "query_request v (session w) = Some r" "\<not> past_due e r"
    "extract_link e = Some l" "l \<noteq> []" "download_verification_pdf e l = (True, url, out)"
    "verify_file (uploaded_file e) (verification_file e) (req_subject_name r)
           (req_student_name r) = Inr (False, reason, a, b)"
    "commit_succeeds e (commit_count w)" "commit_succeeds e (Suc (commit_count w))"
    "commit_succeeds e (Suc (Suc (commit_count w)))"
  note run = compared_run [OF a]
  from run(1) show "fst (start_verification v e w) = Inl (HTTPException 400 reason)" by simp
  from run(2) show "stored_status v (snd (start_verification v e w)) = Some rejected" by simp
  from run(3) show "map_option verified (stored_certificate v (snd (start_verification v e w)))
      = Some False" by simp
  from run(4) show "map_option remark (stored_certificate v (snd (start_verification v e w)))
          = Some (Some reason)" by simp
next
  assume a: "query_request v (session w) = Some r" "\<not> past_due e r"
    "extract_link e = Some l" "l \<noteq> []" "\<not> fst (download_verification_pdf e l)"
    "commit_succeeds e (commit_count w)" "commit_succeeds e (Suc (commit_count w))"
  show "fst (start_verification v e w) = Inr ()"
    by (rule download_failed_run(1) [OF a])
  show "stored_status v (snd (start_verification v e w)) = Some error"
    by (rule download_failed_run(2) [OF a])
next
  assume "fst (start_verification v e w) = Inr ()"
  from normal_return [OF this]
  show "stored_status v (snd (start_verification v e w)) \<noteq> Some rejected" by auto
qed

lemma mismatch_verify_file:
  "verify_file (uploaded_file env_roll_mismatch) (verification_file env_roll_mismatch)
     (req_subject_name sample_request) (req_student_name sample_request)
   = Inr (False, ''Roll number mismatch'', None, None)"
  by (simp add: verify_file_def env_roll_mismatch_def sample_env_def extract_sample
      extract_sample_r102 verify_fields_valid sample_request_def)

lemma mismatch_link:
  "extract_link env_roll_mismatch = Some ''https://nptel.example/v''"
  "download_verification_pdf env_roll_mismatch ''https://nptel.example/v''
     = (True, ''https://nptel.example/v.pdf'', [])"
  by (simp_all add: env_roll_mismatch_def sample_env_def)

theorem rejection_raises_witness:
  "(fst (start_verification sample_verifier env_no_link (fresh_world sample_db))
      = Inl (HTTPException 400 ''Verification link / QR not found'')
    \<and> map_option remark (stored_certificate sample_verifier
        (snd (start_verification sample_verifier env_no_link (fresh_world sample_db))))
      = Some (Some ''Verification link / QR not found''))
   \<and> (fst (start_verification sample_verifier env_roll_mismatch (fresh_world sample_db))
      = Inl (HTTPException 400 ''Roll number mismatch'')
    \<and> stored_status sample_verifier
        (snd (start_verification sample_verifier env_roll_mismatch (fresh_world sample_db)))
      = Some rejected
    \<and> map_option remark (stored_certificate sample_verifier
        (snd (start_verification sample_verifier env_roll_mismatch (fresh_world sample_db))))
      = Some (Some ''Roll number mismatch''))
   \<and> (fst (start_verification sample_verifier env_download_fails (fresh_world sample_db)) = Inr ()
    \<and> stored_status sample_verifier
        (snd (start_verification sample_verifier env_download_fails (fresh_world sample_db)))
      = Some error
    \<and> stored_status sample_verifier
        (snd (start_verification sample_verifier env_download_fails (fresh_world sample_db)))
      \<noteq> Some rejected)"
proof -
  have h1: "query_request sample_verifier (session (fresh_world sample_db)) = Some sample_request
      \<and> \<not> past_due env_no_link sample_request
      \<and> (extract_link env_no_link = None \<or> extract_link env_no_link = Some [])
      \<and> commit_succeeds env_no_link (commit_count (fresh_world sample_db))
      \<and> commit_succeeds env_no_link (Suc (commit_count (fresh_world sample_db)))"
    by (simp add: sample_query sample_due [OF sample_now(2)] sample_no_link sample_commits)
  have h2: "query_request sample_verifier (session (fresh_world sample_db)) = Some sample_request
      \<and> \<not> past_due env_roll_mismatch sample_request
      \<and> extract_link env_roll_mismatch = Some ''https://nptel.example/v''
      \<and> ''https://nptel.example/v'' \<noteq> []
      \<and> download_verification_pdf env_roll_mismatch ''https://nptel.example/v''
           = (True, ''https://nptel.example/v.pdf'', [])
      \<and> verify_file (uploaded_file env_roll_mismatch) (verification_file env_roll_mismatch)
           (req_subject_name sample_request) (req_student_name sample_request)
           = Inr (False, ''Roll number mismatch'', None, None)
      \<and> commit_succeeds env_roll_mismatch (commit_count (fresh_world sample_db))
      \<and> commit_succeeds env_roll_mismatch (Suc (commit_count (fresh_world sample_db)))
      \<and> commit_succeeds env_roll_mismatch (Suc (Suc (commit_count (fresh_world sample_db))))"
    by (simp add: sample_query sample_due [OF sample_now(4)] mismatch_link
        mismatch_verify_file sample_commits)
  have h3: "query_request sample_verifier (session (fresh_world sample_db)) = Some sample_request
      \<and> \<not> past_due env_download_fails sample_request
      \<and> extract_link env_download_fails = Some ''https://nptel.example/v''
      \<and> ''https://nptel.example/v'' \<noteq> []
      \<and> \<not> fst (download_verification_pdf env_download_fails ''https://nptel.example/v'')
      \<and> commit_succeeds env_download_fails (commit_count (fresh_world sample_db))
      \<and> commit_succeeds env_download_fails (Suc (commit_count (fresh_world sample_db)))"
    by (simp add: sample_query sample_due [OF sample_now(3)] sample_download_fails
        sample_commits)
  note a = rejection_raises [where v = sample_verifier and w = "fresh_world sample_db"
      and r = sample_request and e = env_no_link]
  note b = rejection_raises [where v = sample_verifier and w = "fresh_world sample_db"
      and r = sample_request and e = env_roll_mismatch and l = "''https://nptel.example/v''"
      and url = "''https://nptel.example/v.pdf''" and out = "[]"
      and reason = "''Roll number mismatch''" and a = None and b = None]
  note c = rejection_raises [where v = sample_verifier and w = "fresh_world sample_db"
      and r = sample_request and e = env_download_fails and l = "''https://nptel.example/v''"]
  from a h1 have 1: "fst (start_verification sample_verifier env_no_link (fresh_world sample_db))
      = Inl (HTTPException 400 ''Verification link / QR not found'')
    \<and> map_option remark (stored_certificate sample_verifier
        (snd (start_verification sample_verifier env_no_link (fresh_world sample_db))))
      = Some (Some ''Verification link / QR not found'')"
    by blast
  from b h2 have 2: "fst (start_verification sample_verifier env_roll_mismatch
        (fresh_world sample_db)) = Inl (HTTPException 400 ''Roll number mismatch'')
    \<and> stored_status sample_verifier
        (snd (start_verification sample_verifier env_roll_mismatch (fresh_world sample_db)))
      = Some rejected
    \<and> map_option remark (stored_certificate sample_verifier
        (snd (start_verification sample_verifier env_roll_mismatch (fresh_world sample_db))))
      = Some (Some ''Roll number mismatch'')"
    by blast
  from c h3 have 3: "fst (start_verification sample_verifier env_download_fails
        (fresh_world sample_db)) = Inr ()
    \<and> stored_status sample_verifier
        (snd (start_verification sample_verifier env_download_fails (fresh_world sample_db)))
      = Some error"
    by blast
  with c have 4: "stored_status sample_verifier
        (snd (start_verification sample_verifier env_download_fails (fresh_world sample_db)))
      \<noteq> Some rejected"
    by blast
  from 1 2 3 4 show ?thesis by blast
qed


section \<open>The stores a call can leave\<close>

lemma persist_upload_store:
  "store (snd (persist_upload v e w)) = stage_upload v (session w)
   \<or> store (snd (persist_upload v e w)) = store w
   \<or> store (snd (persist_upload v e w))
       = set_outcome v error False ''An internal server error occurred'' (store w)"
  by (simp add: persist_upload_def db_commit_def db_rollback_def update_status_to_error_def)

lemma verify_upload_store:
  "store (snd (verify_upload v e r w)) = store w
   \<or> (\<exists>m. store (snd (verify_upload v e r w)) = set_outcome v rejected False m (session w))
   \<or> (\<exists>m. store (snd (verify_upload v e r w)) = set_outcome v error False m (session w))
   \<or> (\<exists>url. store (snd (verify_upload v e r w))
         = set_certificate v (\<lambda>c. c\<lparr>verification_file_url := Some url\<rparr>) (session w))
   \<or> (\<exists>url m. store (snd (verify_upload v e r w))
         = set_outcome v rejected False m
             (set_certificate v (\<lambda>c. c\<lparr>verification_file_url := Some url\<rparr>) (session w)))
   \<or> (\<exists>url. store (snd (verify_upload v e r w))
         = set_outcome v completed True ''Verification successful''
             (set_certificate v (\<lambda>c. c\<lparr>verification_file_url := Some url\<rparr>) (session w)))"
  by (auto simp: verify_upload_def update_status_to_rejected_def update_status_to_error_def
      db_commit_def Let_def split: option.splits prod.splits sum.splits if_splits)


section \<open>One certificate for a request\<close>








lemma step3_run:
  assumes "query_request v (session w) = Some r" and "commit_succeeds e (commit_count w)"
  shows "fst (persist_upload v e w) = Inr ()"
    and "stored_status v (snd (persist_upload v e w)) = Some processing"
    and "stored_certificate v (snd (persist_upload v e w)) =
         Some (case query_certificate v (session w) of
                 None \<Rightarrow> \<lparr>cert_request_id = request_id v, cert_student_id = student_id v,
                           file_url = uploaded_file_path v, verification_file_url = None,
                           verified = False, remark = None\<rparr>
               | Some c \<Rightarrow> c)"
    and "store (snd (persist_upload v e w)) = stage_upload v (session w)"
    and "session (snd (persist_upload v e w)) = stage_upload v (session w)"
proof -
  from query_request_SomeD [OF assms(1)] have req: "requests (session w) (request_id v) = Some r" ..
  note run = persist_upload_ok [OF assms(2), of v]
  show "fst (persist_upload v e w) = Inr ()" by (simp add: run)
  show "stored_status v (snd (persist_upload v e w)) = Some processing"
    by (simp add: run stored_status_def requests_stage_upload req)
  show "stored_certificate v (snd (persist_upload v e w)) =
         Some (case query_certificate v (session w) of
                 None \<Rightarrow> \<lparr>cert_request_id = request_id v, cert_student_id = student_id v,
                           file_url = uploaded_file_path v, verification_file_url = None,
                           verified = False, remark = None\<rparr>
               | Some c \<Rightarrow> c)"
    by (simp add: run stored_certificate_def query_certificate_stage_upload)
  show "store (snd (persist_upload v e w)) = stage_upload v (session w)" by (simp add: run)
  show "session (snd (persist_upload v e w)) = stage_upload v (session w)" by (simp add: run)
qed

lemma start_after_step3:
  assumes "query_request v (session w) = Some r" "\<not> past_due e r"
    and "commit_succeeds e (commit_count w)"
  shows "start_verification v e w = verify_upload v e r (snd (persist_upload v e w))"
  using assms by (simp add: start_verification_def persist_upload_ok)

section \<open>The invariant of the verified flag\<close>

lemma cert_invariant_iff:
  "cert_invariant d \<longleftrightarrow>
     (\<forall>c \<in> set (certificates d). verified c \<longrightarrow>
        map_option status (requests d (cert_request_id c)) = Some completed)"
  by (simp add: cert_invariant_def list_all_iff)

lemma unverified_iff:
  "unverified v d \<longleftrightarrow>
     (\<forall>c \<in> set (certificates d). cert_request_id c = request_id v \<longrightarrow> \<not> verified c)"
  by (auto simp: unverified_def certificates_of_def list_all_iff)

lemma set_update_first:
  "x \<in> set (update_first P f xs) \<Longrightarrow> x \<in> set xs \<or> (\<exists>y \<in> set xs. P y \<and> x = f y)"
  by (induction xs) (auto split: if_splits)

lemma not_completed_unverified:
  assumes "cert_invariant d"
    and "\<forall>r. requests d (request_id v) = Some r \<longrightarrow> status r \<noteq> completed"
  shows "unverified v d"
  unfolding unverified_iff
proof (intro ballI impI notI)
  fix c assume "c \<in> set (certificates d)" "cert_request_id c = request_id v" "verified c"
  with assms(1) have "map_option status (requests d (request_id v)) = Some completed"
    by (auto simp: cert_invariant_iff)
  with assms(2) show False by auto
qed

lemma settled_set_request:
  assumes "cert_invariant d" "unverified v d"
  shows "cert_invariant (set_request v f d)" "unverified v (set_request v f d)"
proof -
  show "unverified v (set_request v f d)"
    using assms(2) by (simp add: unverified_iff certificates_set_request)
  show "cert_invariant (set_request v f d)"
    unfolding cert_invariant_iff certificates_set_request
  proof (intro ballI impI)
    fix c assume c: "c \<in> set (certificates d)" "verified c"
    with assms(2) have "cert_request_id c \<noteq> request_id v" by (auto simp: unverified_iff)
    then have "requests (set_request v f d) (cert_request_id c) = requests d (cert_request_id c)"
      by (rule requests_set_request_other)
    with assms(1) c show "map_option status (requests (set_request v f d) (cert_request_id c))
        = Some completed"
      by (simp add: cert_invariant_iff)
  qed
qed

lemma certificates_set_certificate:
  "certificates (set_certificate v g d)
     = update_first (\<lambda>c. cert_request_id c = request_id v) g (certificates d)"
  by (simp add: set_certificate_def)

lemma settled_set_certificate:
  assumes "cert_invariant d" "unverified v d"
    and id: "\<And>c. cert_request_id (g c) = cert_request_id c"
    and flag: "\<And>c. verified (g c) \<Longrightarrow> verified c"
  shows "cert_invariant (set_certificate v g d)" "unverified v (set_certificate v g d)"
proof -
  have old: "\<not> verified c" if "c \<in> set (certificates (set_certificate v g d))"
      "cert_request_id c = request_id v" for c
  proof -
    from that(1) [unfolded certificates_set_certificate, THEN set_update_first]
    consider "c \<in> set (certificates d)"
      | y where "y \<in> set (certificates d)" "cert_request_id y = request_id v" "c = g y"
      by auto
    then show ?thesis
    proof cases
      case 1
      with assms(2) that(2) show ?thesis by (auto simp: unverified_iff)
    next
      case 2
      with assms(2) have "\<not> verified y" by (auto simp: unverified_iff)
      with flag 2 show ?thesis by auto
    qed
  qed
  then show "unverified v (set_certificate v g d)" by (auto simp: unverified_iff)
  show "cert_invariant (set_certificate v g d)"
    unfolding cert_invariant_iff requests_set_certificate
  proof (intro ballI impI)
    fix c assume c: "c \<in> set (certificates (set_certificate v g d))" "verified c"
    with old have other: "cert_request_id c \<noteq> request_id v" by auto
    from c(1) [unfolded certificates_set_certificate, THEN set_update_first] other id
    have "c \<in> set (certificates d)" by auto
    with assms(1) c(2) show "map_option status (requests d (cert_request_id c)) = Some completed"
      by (auto simp: cert_invariant_iff)
  qed
qed

lemma settled_set_outcome:
  assumes "cert_invariant d" "unverified v d"
  shows "cert_invariant (set_outcome v st False m d)" "unverified v (set_outcome v st False m d)"
  unfolding set_outcome_def
  by (rule settled_set_certificate [OF settled_set_request [OF assms]]; simp)+

lemma settled_set_url:
  assumes "cert_invariant d" "unverified v d"
  shows "cert_invariant (set_certificate v (\<lambda>c. c\<lparr>verification_file_url := Some url\<rparr>) d)"
    "unverified v (set_certificate v (\<lambda>c. c\<lparr>verification_file_url := Some url\<rparr>) d)"
  by (rule settled_set_certificate [OF assms]; simp)+

lemma settled_stage_upload:
  assumes "cert_invariant d" "unverified v d"
  shows "cert_invariant (stage_upload v d)" "unverified v (stage_upload v d)"
proof -
  note s = settled_set_request [OF assms, of "\<lambda>r. r\<lparr>status := processing\<rparr>"]
  show "cert_invariant (stage_upload v d)"
    using s(1) by (auto simp: stage_upload_def Let_def cert_invariant_iff split: option.splits)
  show "unverified v (stage_upload v d)"
    using s(2) by (auto simp: stage_upload_def Let_def unverified_iff split: option.splits)
qed

lemma completed_keeps_invariant:
  assumes "cert_invariant d" "unverified v d" "requests d (request_id v) = Some r"
  shows "cert_invariant (set_outcome v completed True m d)"
proof -
  let ?d1 = "set_request v (\<lambda>r. r\<lparr>status := completed\<rparr>) d"
  note s = settled_set_request [OF assms(1,2), of "\<lambda>r. r\<lparr>status := completed\<rparr>"]
  have reached: "map_option status (requests ?d1 (request_id v)) = Some completed"
    by (simp add: requests_set_request assms(3))
  show ?thesis
    unfolding set_outcome_def cert_invariant_iff requests_set_certificate
  proof (intro ballI impI)
    fix c
    assume c: "c \<in> set (certificates (set_certificate v
        (\<lambda>c. c\<lparr>verified := True, remark := Some m\<rparr>) ?d1))" "verified c"
    from c(1) [unfolded certificates_set_certificate, THEN set_update_first]
    consider "c \<in> set (certificates ?d1)"
      | y where "cert_request_id y = request_id v" "c = y\<lparr>verified := True, remark := Some m\<rparr>"
      by auto
    then show "map_option status (requests ?d1 (cert_request_id c)) = Some completed"
    proof cases
      case 1
      with s(1) c(2) show ?thesis by (auto simp: cert_invariant_iff)
    next
      case 2
      with reached show ?thesis by simp
    qed
  qed
qed


lemma verify_upload_invariant:
  assumes "cert_invariant (store w)" "cert_invariant (session w)" "unverified v (session w)"
    and "requests (session w) (request_id v) = Some r'"
  shows "cert_invariant (store (snd (verify_upload v e r w)))"
proof -
  note url = settled_set_url [OF assms(2,3)]
  have req: "requests (set_certificate v (\<lambda>c. c\<lparr>verification_file_url := Some u\<rparr>) (session w))
      (request_id v) = Some r'" for u
    by (simp add: requests_set_certificate assms(4))
  from verify_upload_store [of v e r w] show ?thesis
  proof (elim disjE exE)
    assume "store (snd (verify_upload v e r w)) = store w"
    with assms(1) show ?thesis by simp
  next
    fix m assume "store (snd (verify_upload v e r w)) = set_outcome v rejected False m (session w)"
    with settled_set_outcome(1) [OF assms(2,3)] show ?thesis by simp
  next
    fix m assume "store (snd (verify_upload v e r w)) = set_outcome v error False m (session w)"
    with settled_set_outcome(1) [OF assms(2,3)] show ?thesis by simp
  next
    fix u assume "store (snd (verify_upload v e r w))
        = set_certificate v (\<lambda>c. c\<lparr>verification_file_url := Some u\<rparr>) (session w)"
    with url(1) show ?thesis by simp
  next
    fix u m assume "store (snd (verify_upload v e r w))
        = set_outcome v rejected False m
            (set_certificate v (\<lambda>c. c\<lparr>verification_file_url := Some u\<rparr>) (session w))"
    with settled_set_outcome(1) [OF url] show ?thesis by simp
  next
    fix u assume "store (snd (verify_upload v e r w))
        = set_outcome v completed True ''Verification successful''
            (set_certificate v (\<lambda>c. c\<lparr>verification_file_url := Some u\<rparr>) (session w))"
    with completed_keeps_invariant [OF url req] show ?thesis by simp
  qed
qed

lemma persist_upload_invariant:
  assumes "cert_invariant (store w)" "unverified v (store w)" "session w = store w"
  shows "cert_invariant (store (snd (persist_upload v e w)))"
  using persist_upload_store [of v e w] settled_stage_upload(1) [OF assms(1,2)]
    settled_set_outcome(1) [OF assms(1,2)] assms(1,3)
  by auto

lemma start_verification_invariant:
  assumes "cert_invariant (store w)" "unverified v (store w)" "session w = store w"
  shows "cert_invariant (store (snd (start_verification v e w)))"
proof (cases "query_request v (session w)")
  case None
  with assms(1) show ?thesis by (simp add: guards_run)
next
  case (Some r)
  show ?thesis
  proof (cases "past_due e r")
    case True
    with Some assms(1) show ?thesis by (simp add: guards_run)
  next
    case due: False
    show ?thesis
    proof (cases "commit_succeeds e (commit_count w)")
      case False
      from persist_upload_fail_raises [OF False, of v] Some due
      have "store (snd (start_verification v e w)) = store (snd (persist_upload v e w))"
        by (auto simp: start_verification_def split: prod.splits sum.splits)
      with persist_upload_invariant [OF assms] show ?thesis by simp
    next
      case True
      note s3 = step3_run [OF Some True]
      note st = settled_stage_upload [OF assms(1,2)]
      from query_request_SomeD [OF Some]
      have req: "requests (stage_upload v (session w)) (request_id v)
          = Some (r\<lparr>status := processing\<rparr>)"
        by (simp add: requests_stage_upload)
      have "cert_invariant (store (snd (verify_upload v e r (snd (persist_upload v e w)))))"
        by (rule verify_upload_invariant [where r' = "r\<lparr>status := processing\<rparr>"])
           (simp_all add: s3 st assms(3) req [unfolded assms(3)])
      then show ?thesis by (simp add: start_after_step3 [OF Some due True])
    qed
  qed
qed

section \<open>What every path of a call preserves\<close>






lemma route_query:
  "query_request (route_verifier rid sid) d =
     (case requests d rid of
        None \<Rightarrow> None
      | Some r \<Rightarrow> if req_student_id r = sid then Some r else None)"
  by (simp add: query_request_def route_verifier_def split: option.splits)

lemma upload_certificate_passed:
  assumes "query_request (route_verifier rid sid) (session w) = Some r"
    and "status r \<noteq> completed" "status r \<noteq> processing"
  shows "upload_certificate rid sid e w =
     (case start_verification (route_verifier rid sid) e w of
        (Inl ex, w') \<Rightarrow> (Inl ex, w')
      | (Inr u, w') \<Rightarrow> (Inr ''Certificate uploaded successfully'', w'))"
  unfolding upload_certificate_def route_query [symmetric] using assms by simp

lemma upload_certificate_turned_away:
  assumes "store (snd (upload_certificate rid sid e w)) \<noteq> store w"
  shows "\<exists>r. query_request (route_verifier rid sid) (session w) = Some r
     \<and> status r \<noteq> completed \<and> status r \<noteq> processing"
  using assms unfolding upload_certificate_def route_query [symmetric]
  by (auto split: option.splits if_splits)

section \<open>Paths and single records\<close>

















lemma route_store_after_guards:
  assumes "query_request (route_verifier rid sid) (session w) = Some r"
    and "status r \<noteq> completed" "status r \<noteq> processing"
  shows "store (snd (upload_certificate rid sid e w))
       = store (snd (start_verification (route_verifier rid sid) e w))"
  unfolding upload_certificate_passed [OF assms]
  by (cases "start_verification (route_verifier rid sid) e w")
     (simp split: sum.splits)





lemma route_sample: "route_verifier ''r1'' ''s1'' = sample_verifier"
  by (simp add: route_verifier_def certificate_path_def sample_verifier_def)

lemma reupload_query:
  "query_request sample_verifier (session (fresh_world reupload_db))
     = Some (sample_request\<lparr>status := rejected\<rparr>)"
  by (simp add: query_request_def sample_verifier_def fresh_world_def reupload_db_def
      sample_request_def)

lemma fresh_world_fields:
  "store (fresh_world d) = d" "session (fresh_world d) = d" "commit_count (fresh_world d) = 0"
  by (simp_all add: fresh_world_def)


lemma reupload_db_route:
  "route_paths reupload_db" "single_records reupload_db" "cert_invariant reupload_db"
  by (simp_all add: route_paths_def single_records_def cert_invariant_def reupload_db_def
      certificate_path_def)




section \<open>The verified flag and the status\<close>

lemma update_status_sessions:
  "session (snd (update_status_to_rejected v m e x)) = set_outcome v rejected False m (session x)"
  "session (snd (update_status_to_error v m e x)) = set_outcome v error False m (session x)"
  by (simp_all add: update_status_to_rejected_def update_status_to_error_def db_commit_def)

lemma update_status_stores:
  "commit_succeeds e (commit_count x) \<Longrightarrow>
   store (snd (update_status_to_rejected v m e x)) = set_outcome v rejected False m (session x)"
  "commit_succeeds e (commit_count x) \<Longrightarrow>
   store (snd (update_status_to_error v m e x)) = set_outcome v error False m (session x)"
  by (simp_all add: update_status_to_rejected_ok update_status_to_error_ok)

lemma settled_persist_upload:
  assumes "cert_invariant (store w)" "unverified v (store w)" "session w = store w"
  shows "cert_invariant (store (snd (persist_upload v e w)))
       \<and> unverified v (store (snd (persist_upload v e w)))"
  using persist_upload_store [of v e w] settled_stage_upload [OF assms(1,2)]
    settled_set_outcome [OF assms(1,2)] assms
  by auto

lemma route_invariant:
  assumes "cert_invariant (store w)" "session w = store w"
  shows "cert_invariant (store (snd (upload_certificate rid sid e w)))"
proof (cases "store (snd (upload_certificate rid sid e w)) = store w")
  case True
  with assms(1) show ?thesis by simp
next
  case False
  from upload_certificate_turned_away [OF False] obtain r where
    g: "query_request (route_verifier rid sid) (session w) = Some r" "status r \<noteq> completed"
       "status r \<noteq> processing"
    by blast
  from query_request_SomeD [OF g(1)] g(2) assms(2)
  have "\<forall>r. requests (store w) (request_id (route_verifier rid sid)) = Some r
      \<longrightarrow> status r \<noteq> completed" by simp
  with assms(1) have "unverified (route_verifier rid sid) (store w)"
    by (rule not_completed_unverified)
  from start_verification_invariant [OF assms(1) this assms(2)]
  show ?thesis by (simp add: route_store_after_guards [OF g])
qed

lemma not_completed_status:
  "stored_status v x \<noteq> Some completed \<Longrightarrow>
   \<forall>r. requests (store x) (request_id v) = Some r \<longrightarrow> status r \<noteq> completed"
  by (auto simp: stored_status_def)

text \<open>
  C8. Let every verified certificate belong to a completed request in the store, and
  let the session have no pending changes. Then so it is in the store after an upload,
  whatever its outcome; when the request is not stored as completed after the upload,
  none of its certificates is verified; and after step 3, which sets the status
  \<open>processing\<close> and writes no flag, the invariant holds and no certificate of the request
  is verified. The two operations that set the other final statuses, \<open>rejected\<close> and
  \<open>error\<close>, set the verified flag of the request's certificate to false together with
  the status, and that is what their commit stores.
\<close>

theorem verified_only_when_completed:
  assumes "cert_invariant (store w)" and "session w = store w"
    and "v = route_verifier rid sid"
  shows "cert_invariant (store (snd (upload_certificate rid sid e w)))
    \<and> (stored_status v (snd (upload_certificate rid sid e w)) \<noteq> Some completed
        \<longrightarrow> unverified v (store (snd (upload_certificate rid sid e w))))
    \<and> (query_request v (session w) = Some r \<and> status r \<noteq> completed
        \<longrightarrow> cert_invariant (store (snd (persist_upload v e w)))
          \<and> unverified v (store (snd (persist_upload v e w))))
    \<and> map_option verified (query_certificate u (session (snd (update_status_to_rejected u m e x))))
        = map_option (\<lambda>c. False) (query_certificate u (session x))
    \<and> map_option status (requests (session (snd (update_status_to_rejected u m e x)))
          (request_id u))
        = map_option (\<lambda>r. rejected) (requests (session x) (request_id u))
    \<and> map_option verified (query_certificate u (session (snd (update_status_to_error u m e x))))
        = map_option (\<lambda>c. False) (query_certificate u (session x))
    \<and> map_option status (requests (session (snd (update_status_to_error u m e x)))
          (request_id u))
        = map_option (\<lambda>r. error) (requests (session x) (request_id u))
    \<and> (commit_succeeds e (commit_count x)
        \<longrightarrow> store (snd (update_status_to_rejected u m e x))
            = session (snd (update_status_to_rejected u m e x))
          \<and> store (snd (update_status_to_error u m e x))
            = session (snd (update_status_to_error u m e x)))"
proof (intro conjI impI; (elim conjE)?)
  show inv: "cert_invariant (store (snd (upload_certificate rid sid e w)))"
    using assms(1,2) by (rule route_invariant)
  show "unverified v (store (snd (upload_certificate rid sid e w)))"
    if "stored_status v (snd (upload_certificate rid sid e w)) \<noteq> Some completed"
    using inv not_completed_status [OF that] by (rule not_completed_unverified)
  show "map_option verified (query_certificate u (session (snd (update_status_to_rejected u m e x))))
        = map_option (\<lambda>c. False) (query_certificate u (session x))"
    by (simp add: update_status_sessions query_certificate_set_outcome option.map_comp comp_def)
  show "map_option status (requests (session (snd (update_status_to_rejected u m e x)))
          (request_id u))
        = map_option (\<lambda>r. rejected) (requests (session x) (request_id u))"
    by (simp add: update_status_sessions requests_set_outcome option.map_comp comp_def)
  show "map_option verified (query_certificate u (session (snd (update_status_to_error u m e x))))
        = map_option (\<lambda>c. False) (query_certificate u (session x))"
    by (simp add: update_status_sessions query_certificate_set_outcome option.map_comp comp_def)
  show "map_option status (requests (session (snd (update_status_to_error u m e x)))
          (request_id u))
        = map_option (\<lambda>r. error) (requests (session x) (request_id u))"
    by (simp add: update_status_sessions requests_set_outcome option.map_comp comp_def)
next
  assume g: "query_request v (session w) = Some r" "status r \<noteq> completed"
  from query_request_SomeD [OF g(1)] g(2) assms(2)
  have "\<forall>r. requests (store w) (request_id v) = Some r \<longrightarrow> status r \<noteq> completed" by simp
  with assms(1) have unv: "unverified v (store w)" by (rule not_completed_unverified)
  from settled_persist_upload [OF assms(1) unv assms(2), of e]
  show "cert_invariant (store (snd (persist_upload v e w)))"
    "unverified v (store (snd (persist_upload v e w)))" by blast+
next
  assume c: "commit_succeeds e (commit_count x)"
  show "store (snd (update_status_to_rejected u m e x))
            = session (snd (update_status_to_rejected u m e x))"
    by (simp add: update_status_sessions update_status_stores [OF c])
  show "store (snd (update_status_to_error u m e x))
            = session (snd (update_status_to_error u m e x))"
    by (simp add: update_status_sessions update_status_stores [OF c])
qed


lemma completed_db_invariant: "cert_invariant completed_db"
  by (simp add: cert_invariant_def completed_db_def sample_certificate_def)

lemma completed_certificate:
  "query_certificate sample_verifier (session (fresh_world completed_db))
     = Some sample_certificate"
  by (simp add: query_certificate_def fresh_world_def completed_db_def sample_certificate_def
      sample_verifier_def)

lemma reupload_no_link_status:
  "stored_status sample_verifier
     (snd (upload_certificate ''r1'' ''s1'' env_no_link (fresh_world reupload_db)))
   = Some rejected"
proof -
  have g: "query_request (route_verifier ''r1'' ''s1'') (session (fresh_world reupload_db))
      = Some (sample_request\<lparr>status := rejected\<rparr>)"
    by (simp add: route_sample reupload_query)
  have d: "\<not> past_due env_no_link (sample_request\<lparr>status := rejected\<rparr>)"
    by (simp add: past_due_def sample_request_def sample_now)
  have "store (snd (upload_certificate ''r1'' ''s1'' env_no_link (fresh_world reupload_db)))
      = store (snd (start_verification sample_verifier env_no_link (fresh_world reupload_db)))"
    using route_store_after_guards [OF g, of env_no_link] by (simp add: route_sample)
  moreover have "stored_status sample_verifier
      (snd (start_verification sample_verifier env_no_link (fresh_world reupload_db)))
      = Some rejected"
    by (rule link_missing_run(2) [OF reupload_query d])
       (simp_all add: sample_no_link sample_commits)
  ultimately show ?thesis by (simp add: stored_status_def)
qed

theorem verified_only_when_completed_witness:
  "cert_invariant
     (store (snd (upload_certificate ''r1'' ''s1'' sample_env (fresh_world completed_db))))
   \<and> cert_invariant
     (store (snd (upload_certificate ''r1'' ''s1'' sample_env (fresh_world reupload_db))))
   \<and> unverified sample_verifier
     (store (snd (upload_certificate ''r1'' ''s1'' env_no_link (fresh_world reupload_db))))
   \<and> unverified sample_verifier
     (store (snd (persist_upload sample_verifier sample_env (fresh_world reupload_db))))
   \<and> map_option verified (query_certificate sample_verifier
        (session (snd (update_status_to_rejected sample_verifier ''Roll number mismatch''
           sample_env (fresh_world completed_db))))) = Some False
   \<and> store (snd (update_status_to_error sample_verifier
        ''Could not download the verification pdf'' sample_env (fresh_world completed_db)))
     = session (snd (update_status_to_error sample_verifier
        ''Could not download the verification pdf'' sample_env (fresh_world completed_db)))"
proof -
  have h1: "cert_invariant (store (fresh_world completed_db))"
    "session (fresh_world completed_db) = store (fresh_world completed_db)"
    by (simp_all add: fresh_world_fields completed_db_invariant)
  have h2: "cert_invariant (store (fresh_world reupload_db))"
    "session (fresh_world reupload_db) = store (fresh_world reupload_db)"
    by (simp_all add: fresh_world_fields reupload_db_route)
  have g: "query_request sample_verifier (session (fresh_world reupload_db))
        = Some (sample_request\<lparr>status := rejected\<rparr>)
      \<and> status (sample_request\<lparr>status := rejected\<rparr>) \<noteq> completed"
    by (simp add: reupload_query)
  have st: "stored_status sample_verifier
      (snd (upload_certificate ''r1'' ''s1'' env_no_link (fresh_world reupload_db)))
      \<noteq> Some completed"
    by (simp add: reupload_no_link_status)
  have c: "commit_succeeds sample_env (commit_count (fresh_world completed_db))"
    by (rule sample_commits)
  note a = verified_only_when_completed [OF h1 route_sample [symmetric],
      where e = sample_env and u = sample_verifier and m = "''Roll number mismatch''"
        and x = "fresh_world completed_db"]
  note a' = verified_only_when_completed [OF h1 route_sample [symmetric],
      where e = sample_env and u = sample_verifier
        and m = "''Could not download the verification pdf''"
        and x = "fresh_world completed_db"]
  note b = verified_only_when_completed [OF h2 route_sample [symmetric],
      where e = sample_env and r = "sample_request\<lparr>status := rejected\<rparr>"]
  note b' = verified_only_when_completed [OF h2 route_sample [symmetric],
      where e = env_no_link]
  from a have 1: "cert_invariant
     (store (snd (upload_certificate ''r1'' ''s1'' sample_env (fresh_world completed_db))))"
    by blast
  from b have 2: "cert_invariant
     (store (snd (upload_certificate ''r1'' ''s1'' sample_env (fresh_world reupload_db))))"
    by blast
  from b' st have 3: "unverified sample_verifier
     (store (snd (upload_certificate ''r1'' ''s1'' env_no_link (fresh_world reupload_db))))"
    by blast
  from b g have 4: "unverified sample_verifier
     (store (snd (persist_upload sample_verifier sample_env (fresh_world reupload_db))))"
    by blast
  from a have "map_option verified (query_certificate sample_verifier
        (session (snd (update_status_to_rejected sample_verifier ''Roll number mismatch''
           sample_env (fresh_world completed_db)))))
      = map_option (\<lambda>c. False)
          (query_certificate sample_verifier (session (fresh_world completed_db)))"
    by blast
  then have 5: "map_option verified (query_certificate sample_verifier
        (session (snd (update_status_to_rejected sample_verifier ''Roll number mismatch''
           sample_env (fresh_world completed_db))))) = Some False"
    by (simp add: completed_certificate)
  from a' c have 6: "store (snd (update_status_to_error sample_verifier
        ''Could not download the verification pdf'' sample_env (fresh_world completed_db)))
     = session (snd (update_status_to_error sample_verifier
        ''Could not download the verification pdf'' sample_env (fresh_world completed_db)))"
    by blast
  from 1 2 3 4 5 6 show ?thesis by blast
qed


end
